theory Spec2Isabelle
  imports Complex_Main "HOL-Library.Multiset" "HOL-Library.Log_Nat"
begin

section \<open>Errors\<close>

text \<open>
  Every \<^verbatim>\<open>raise_if\<close> / \<^verbatim>\<open>raise_if_not\<close> of
  \<^verbatim>\<open>regression_model.py\<close> raises a \<^verbatim>\<open>ValueError\<close> whose message is a
  format string.  Each such raise is one constructor below, carrying the values that the
  message prints.  Errors raised by Python, numpy or pandas themselves are the last
  constructors.
\<close>

datatype lag_key = Target | Past | Future

datatype error =
    NoLagsGiven
  | LagsNotPositive int
  | LagsElemNotNegative "int list"
  | PastLagsNotPositive int
  | PastLagsElemNotNegative "int list"
  | FutureLagsTupleNegative int int
  | OutputChunkLengthNotPositive int
  | NoTrainingSamples "nat option"
  | NumSamplesNotSupported
  | NoInputSeries
  | DimensionMismatch "nat \<times> nat option \<times> nat option" "(nat \<times> nat option \<times> nat option) option"
  | InsufficientCovariates lag_key nat int int int int int int int int
  | CovariatesMissingAtPredict lag_key
  | CovariatesUnexpectedAtPredict lag_key
  | ZeroDivisionError
  | IndexError
  | ValueError
  | TypeError
  | KeyError
  | AttributeError
  | OverflowError

definition bindE :: "error + 'a \<Rightarrow> ('a \<Rightarrow> error + 'b) \<Rightarrow> error + 'b" where
  "bindE m f = (case m of Inl e \<Rightarrow> Inl e | Inr v \<Rightarrow> f v)"

section \<open>Lag specification: \<^verbatim>\<open>RegressionModel.__init__\<close>\<close>

text \<open>
  The constructor arguments.  \<^verbatim>\<open>lags\<close> and \<^verbatim>\<open>lags_past_covariates\<close> are an
  \<^verbatim>\<open>int\<close>, a \<^verbatim>\<open>list\<close> or \<^verbatim>\<open>None\<close>;
  \<^verbatim>\<open>lags_future_covariates\<close> is a 2-tuple, a list or \<^verbatim>\<open>None\<close>.
  \<^verbatim>\<open>None\<close> is the \<open>None\<close> of the option type.  The \<^verbatim>\<open>isinstance\<close> checks of
  lines 130-162 and the per-element \<^verbatim>\<open>isinstance(lag, int)\<close> tests hold by typing here:
  list elements and tuple components are integers.
\<close>

datatype lags_arg = LagsInt int | LagsList "int list"

datatype future_lags_arg = LagsTuple int int | FutureLagsList "int list"

text \<open>\<^verbatim>\<open>self.lags\<close>: a dict with at most the keys "target", "past", "future".\<close>

record lags_dict =
  lags_target :: "int list option"
  lags_past :: "int list option"
  lags_future :: "int list option"

definition lags_get :: "lags_dict \<Rightarrow> lag_key \<Rightarrow> int list option" where
  "lags_get d k = (case k of Target \<Rightarrow> lags_target d | Past \<Rightarrow> lags_past d | Future \<Rightarrow> lags_future d)"

record regression_config =
  lags :: lags_dict
  output_chunk_length :: int

text \<open>Lines 165-176: \<^verbatim>\<open>list(range(-lags, 0))\<close> or \<^verbatim>\<open>sorted(lags)\<close>.\<close>

definition set_target_lags :: "lags_arg option \<Rightarrow> error + int list option" where
  "set_target_lags a =
     (case a of
        None \<Rightarrow> Inr None
      | Some (LagsInt k) \<Rightarrow>
          if k > 0 then Inr (Some [- k .. - 1]) else Inl (LagsNotPositive k)
      | Some (LagsList l) \<Rightarrow>
          if (\<exists>lag \<in> set l. lag \<ge> 0) then Inl (LagsElemNotNegative l)
          else Inr (if l \<noteq> [] then Some (sort l) else None))"

text \<open>Lines 178-191.\<close>

definition set_past_lags :: "lags_arg option \<Rightarrow> error + int list option" where
  "set_past_lags a =
     (case a of
        None \<Rightarrow> Inr None
      | Some (LagsInt k) \<Rightarrow>
          if k > 0 then Inr (Some [- k .. - 1]) else Inl (PastLagsNotPositive k)
      | Some (LagsList l) \<Rightarrow>
          if (\<exists>lag \<in> set l. lag \<ge> 0) then Inl (PastLagsElemNotNegative l)
          else Inr (if l \<noteq> [] then Some (sort l) else None))"

text \<open>Lines 193-215: \<^verbatim>\<open>list(range(-past, future))\<close> or \<^verbatim>\<open>sorted(...)\<close>.\<close>

definition set_future_lags :: "future_lags_arg option \<Rightarrow> error + int list option" where
  "set_future_lags a =
     (case a of
        None \<Rightarrow> Inr None
      | Some (LagsTuple p f) \<Rightarrow>
          if p \<ge> 0 \<and> f \<ge> 0
          then Inr (if \<not> (p = 0 \<and> f = 0) then Some [- p .. f - 1] else None)
          else Inl (FutureLagsTupleNegative p f)
      | Some (FutureLagsList l) \<Rightarrow> Inr (if l \<noteq> [] then Some (sort l) else None))"

text \<open>
  \<^verbatim>\<open>__init__\<close>, lines 122-222, in the order of the source: the all-\<^verbatim>\<open>None\<close>
  check, the target, past and future lags, then \<^verbatim>\<open>output_chunk_length\<close>.  The
  regressor object \<^verbatim>\<open>model\<close> is a function parameter of the prediction functions
  below, so the two \<^verbatim>\<open>callable\<close> checks of lines 113-120 hold by typing.
\<close>

definition RegressionModel_init ::
  "lags_arg option \<Rightarrow> lags_arg option \<Rightarrow> future_lags_arg option \<Rightarrow> int \<Rightarrow> error + regression_config" where
  "RegressionModel_init lags_a lags_past_covariates lags_future_covariates ocl =
     (if lags_a = None \<and> lags_future_covariates = None \<and> lags_past_covariates = None
      then Inl NoLagsGiven
      else
        bindE (set_target_lags lags_a) (\<lambda>t.
        bindE (set_past_lags lags_past_covariates) (\<lambda>p.
        bindE (set_future_lags lags_future_covariates) (\<lambda>f.
          if ocl > 0
          then Inr \<lparr> lags = \<lparr> lags_target = t, lags_past = p, lags_future = f \<rparr>,
                     output_chunk_length = ocl \<rparr>
          else Inl (OutputChunkLengthNotPositive ocl)))))"

section \<open>Series, data frames and arrays\<close>

text \<open>
  Modelled from the spec: the \<^verbatim>\<open>TimeSeries\<close> class (\<^verbatim>\<open>darts.timeseries\<close>) is not
  part of the sources at hand.  The specification describes a series as an ordered,
  frequency-stamped sequence of numeric vectors indexed by time, with a width (number of
  components), a start and end time, a frequency step, slicing by time range and access
  to its values as a 2D array indexed \<open>[time, component]\<close>.  Time stamps are integers;
  row \<open>i\<close> of \<open>ts_values\<close> is observed at \<open>ts_start + i * ts_freq\<close>.  The cell type
  \<open>'c\<close> is \<open>'a option\<close> where missing values matter: \<open>None\<close> is NaN.
\<close>

record 'c timeseries =
  ts_start :: int
  ts_freq :: int
  ts_values :: "'c list list"
  ts_width :: nat
  has_range_index :: bool

definition wf_ts :: "'c timeseries \<Rightarrow> bool" where
  "wf_ts s \<longleftrightarrow> ts_freq s > 0 \<and> (\<forall>r \<in> set (ts_values s). length r = ts_width s)"

definition time_index :: "'c timeseries \<Rightarrow> int list" where
  "time_index s = map (\<lambda>i. ts_start s + int i * ts_freq s) [0 ..< length (ts_values s)]"



text \<open>
  A pandas \<^verbatim>\<open>DataFrame\<close>: an index of time stamps, one row of cells per index entry,
  and the number of columns (which an empty frame still has).
\<close>

record 'c dataframe =
  df_index :: "int list"
  df_rows :: "'c list list"
  df_ncols :: nat

definition pd_dataframe :: "'c timeseries \<Rightarrow> 'c dataframe" where
  "pd_dataframe s = \<lparr> df_index = time_index s, df_rows = ts_values s, df_ncols = ts_width s \<rparr>"

text \<open>
  \<^verbatim>\<open>DataFrame.shift(periods)\<close>: the index stays, the rows move down by \<open>periods\<close>
  positions (up when negative), and the vacated rows are NaN.
\<close>

definition df_shift :: "int \<Rightarrow> 'a option dataframe \<Rightarrow> 'a option dataframe" where
  "df_shift periods df =
     (let n = length (df_rows df);
          nan_row = replicate (df_ncols df) None
      in if periods \<ge> 0
         then df \<lparr> df_rows := replicate (min (nat periods) n) nan_row @ take (n - nat periods) (df_rows df) \<rparr>
         else df \<lparr> df_rows := drop (nat (- periods)) (df_rows df) @ replicate (min (nat (- periods)) n) nan_row \<rparr>)"

text \<open>The row of a frame at a time stamp; NaN in every column when the stamp is not in the index.\<close>

definition df_loc :: "'a option dataframe \<Rightarrow> int \<Rightarrow> 'a option list" where
  "df_loc df t =
     (case map_of (zip (df_index df) (df_rows df)) t of
        Some r \<Rightarrow> r
      | None \<Rightarrow> replicate (df_ncols df) None)"

text \<open>
  \<^verbatim>\<open>pd.concat(frames, axis=1)\<close>: an outer join on the index; no frames is a
  \<^verbatim>\<open>ValueError\<close>.  The joined index is given here in ascending order.  pandas may order
  the entries that are not in the first frame's index differently, but such a row is NaN
  in that frame's columns, and the builder only reads the rows that \<^verbatim>\<open>dropna\<close> keeps.
\<close>

definition pd_concat :: "'a option dataframe list \<Rightarrow> error + 'a option dataframe" where
  "pd_concat dfs =
     (if dfs = [] then Inl ValueError
      else
        let idx = sort (remdups (concat (map df_index dfs)))
        in Inr \<lparr> df_index = idx,
                 df_rows = map (\<lambda>t. concat (map (\<lambda>d. df_loc d t) dfs)) idx,
                 df_ncols = sum_list (map df_ncols dfs) \<rparr>)"

text \<open>\<^verbatim>\<open>df.dropna().values\<close>: the rows without a NaN, as a 2D array.\<close>

definition dropna_values :: "'a option dataframe \<Rightarrow> 'a option list list" where
  "dropna_values df = filter (\<lambda>r. None \<notin> set r) (df_rows df)"

text \<open>
  Lines 351-352: \<^verbatim>\<open>if max_samples_per_ts: X_y = X_y[-max_samples_per_ts:]\<close>.
  \<^verbatim>\<open>None\<close> and \<open>0\<close> are falsy; a positive cap keeps the last rows; a negative one makes
  the slice start at a positive position.
\<close>

definition keep_most_recent :: "int option \<Rightarrow> 'c list \<Rightarrow> 'c list" where
  "keep_most_recent max_samples_per_ts X_y =
     (case max_samples_per_ts of
        None \<Rightarrow> X_y
      | Some c \<Rightarrow>
          if c = 0 then X_y
          else if c > 0 then drop (length X_y - nat c) X_y
          else drop (nat (- c)) X_y)"

text \<open>\<^verbatim>\<open>seq[idx]\<close> on a Python list, for \<open>idx \<ge> 0\<close>.\<close>

definition list_get :: "'c list \<Rightarrow> nat \<Rightarrow> error + 'c" where
  "list_get xs i = (if i < length xs then Inr (xs ! i) else Inl IndexError)"

text \<open>
  \<^verbatim>\<open>np.concatenate(arrays, axis=0)\<close> of 2D arrays, each given with its number of
  columns: at least one array, and all of the same number of columns.
\<close>

definition np_concatenate0 :: "(nat \<times> 'c list list) list \<Rightarrow> error + 'c list list" where
  "np_concatenate0 arrays =
     (case arrays of
        [] \<Rightarrow> Inl ValueError
      | a # _ \<Rightarrow>
          if (\<forall>b \<in> set arrays. fst b = fst a) then Inr (concat (map snd arrays))
          else Inl ValueError)"

section \<open>Lagged-matrix builder: \<^verbatim>\<open>RegressionModel._create_lagged_data\<close>\<close>

text \<open>
  Lines 310-323: the covariate frame of episode \<open>idx\<close>, \<^verbatim>\<open>None\<close> when the covariate
  argument is falsy (\<^verbatim>\<open>None\<close> or an empty list).
\<close>

definition cov_frame :: "'c timeseries list option \<Rightarrow> nat \<Rightarrow> error + 'c dataframe option" where
  "cov_frame covs idx =
     (case covs of
        None \<Rightarrow> Inr None
      | Some cs \<Rightarrow>
          if cs = [] then Inr None
          else bindE (list_get cs idx) (\<lambda>c. Inr (Some (pd_dataframe c))))"

text \<open>
  Lines 339-342: the shifted frames of one covariate; nothing when its lag list is absent
  or empty, an \<^verbatim>\<open>AttributeError\<close> when lags are set but the frame is \<^verbatim>\<open>None\<close>.
\<close>

definition cov_lag_frames ::
  "'a option dataframe option \<Rightarrow> int list option \<Rightarrow> error + 'a option dataframe list" where
  "cov_lag_frames df_cov lags_o =
     (case lags_o of
        None \<Rightarrow> Inr []
      | Some ls \<Rightarrow>
          if ls = [] then Inr []
          else (case df_cov of
                  None \<Rightarrow> Inl AttributeError
                | Some d \<Rightarrow> Inr (map (\<lambda>lag. df_shift (- lag) d) ls)))"

text \<open>
  The first part of the loop body, lines 310-347, for episode \<open>idx\<close>: the frames
  \<^verbatim>\<open>df_X\<close> and \<^verbatim>\<open>df_X_y\<close>.
\<close>

definition episode_frames ::
  "regression_config \<Rightarrow> nat \<Rightarrow> 'a option timeseries \<Rightarrow>
   'a option timeseries list option \<Rightarrow> 'a option timeseries list option \<Rightarrow>
   error + ('a option dataframe \<times> 'a option dataframe)" where
  "episode_frames self idx target_ts past_covariates future_covariates =
     bindE (cov_frame past_covariates idx) (\<lambda>df_past.
     bindE (cov_frame future_covariates idx) (\<lambda>df_future.
       let df_target = pd_dataframe target_ts;
           df_y = map (\<lambda>future_target_lag. df_shift (- int future_target_lag) df_target)
                    [0 ..< nat (output_chunk_length self)];
           df_X_target = (case lags_target (lags self) of
                            None \<Rightarrow> []
                          | Some ls \<Rightarrow> map (\<lambda>lag. df_shift (- lag) df_target) ls)
       in
       bindE (cov_lag_frames df_past (lags_past (lags self))) (\<lambda>df_X_past.
       bindE (cov_lag_frames df_future (lags_future (lags self))) (\<lambda>df_X_future.
       bindE (pd_concat (df_X_target @ df_X_past @ df_X_future)) (\<lambda>df_X.
       bindE (pd_concat df_y) (\<lambda>df_y.
       bindE (pd_concat [df_X, df_y]) (\<lambda>df_X_y. Inr (df_X, df_X_y))))))))"

text \<open>
  The whole loop body, lines 310-364: the frames, then \<^verbatim>\<open>dropna\<close>, the sample cap,
  the zero-row check and \<^verbatim>\<open>np.split\<close>.  Each of \<open>X\<close> and \<open>y\<close> comes with its
  number of columns.
\<close>

definition lagged_episode ::
  "regression_config \<Rightarrow> nat \<Rightarrow> nat \<Rightarrow> 'a option timeseries \<Rightarrow>
   'a option timeseries list option \<Rightarrow> 'a option timeseries list option \<Rightarrow> int option \<Rightarrow>
   error + ((nat \<times> 'a option list list) \<times> (nat \<times> 'a option list list))" where
  "lagged_episode self n_series idx target_ts past_covariates future_covariates max_samples_per_ts =
     bindE (episode_frames self idx target_ts past_covariates future_covariates) (\<lambda>(df_X, df_X_y).
       let X_y = keep_most_recent max_samples_per_ts (dropna_values df_X_y)
       in if X_y = []
          then Inl (NoTrainingSamples (if n_series > 1 then Some idx else None))
          else Inr ((df_ncols df_X, map (take (df_ncols df_X)) X_y),
                    (df_ncols df_X_y - df_ncols df_X, map (drop (df_ncols df_X)) X_y)))"

text \<open>The loop \<^verbatim>\<open>for idx, target_ts in enumerate(target_series)\<close>, from position \<open>idx\<close> on.\<close>

fun lagged_episodes ::
  "regression_config \<Rightarrow> nat \<Rightarrow> nat \<Rightarrow> 'a option timeseries list \<Rightarrow>
   'a option timeseries list option \<Rightarrow> 'a option timeseries list option \<Rightarrow> int option \<Rightarrow>
   error + ((nat \<times> 'a option list list) \<times> (nat \<times> 'a option list list)) list" where
  "lagged_episodes self n_series idx [] past_covariates future_covariates max_samples_per_ts = Inr []"
| "lagged_episodes self n_series idx (target_ts # rest) past_covariates future_covariates max_samples_per_ts =
     bindE (lagged_episode self n_series idx target_ts past_covariates future_covariates max_samples_per_ts)
       (\<lambda>Xy.
     bindE (lagged_episodes self n_series (Suc idx) rest past_covariates future_covariates max_samples_per_ts)
       (\<lambda>Xys. Inr (Xy # Xys)))"

text \<open>
  \<^verbatim>\<open>_create_lagged_data\<close> on a list of target series, as \<^verbatim>\<open>fit\<close> calls it (after
  \<^verbatim>\<open>series2seq\<close>): the loop, then the two \<^verbatim>\<open>np.concatenate(..., axis=0)\<close>.
\<close>

definition create_lagged_data ::
  "regression_config \<Rightarrow> 'a option timeseries list \<Rightarrow>
   'a option timeseries list option \<Rightarrow> 'a option timeseries list option \<Rightarrow> int option \<Rightarrow>
   error + ('a option list list \<times> 'a option list list)" where
  "create_lagged_data self target_series past_covariates future_covariates max_samples_per_ts =
     bindE (lagged_episodes self (length target_series) 0 target_series
              past_covariates future_covariates max_samples_per_ts) (\<lambda>Xys.
     bindE (np_concatenate0 (map fst Xys)) (\<lambda>X.
     bindE (np_concatenate0 (map snd Xys)) (\<lambda>y. Inr (X, y))))"

subsection \<open>The column layout, as the specification words it\<close>

text \<open>
  The layout that the builder's docstring and the specification describe, written
  directly on the series and not through data frames: the feature row for time \<open>t\<close> is
  the target block, then the past-covariate block, then the future-covariate block; a
  block lists, lag by lag in the order of the lag list, all components of the series at
  that lag.  \<open>lagged_at s lag t\<close> is the row of \<open>s\<close> that lies \<open>lag\<close> positions from
  the one observed at time \<open>t\<close>; it is NaN when \<open>t\<close> is not a time of \<open>s\<close> or that
  position is off the series.
\<close>

definition lagged_at :: "'a option timeseries \<Rightarrow> int \<Rightarrow> int \<Rightarrow> 'a option list" where
  "lagged_at s lag t =
     (let d = t - ts_start s;
          i = d div ts_freq s;
          n = int (length (ts_values s))
      in if d mod ts_freq s = 0 \<and> 0 \<le> i \<and> i < n \<and> 0 \<le> i + lag \<and> i + lag < n
         then ts_values s ! nat (i + lag)
         else replicate (ts_width s) None)"

definition cov_at :: "'c timeseries list option \<Rightarrow> nat \<Rightarrow> 'c timeseries option" where
  "cov_at covs idx =
     (case covs of
        None \<Rightarrow> None
      | Some cs \<Rightarrow> if idx < length cs then Some (cs ! idx) else None)"

definition lag_block :: "'a option timeseries option \<Rightarrow> int list option \<Rightarrow> int \<Rightarrow> 'a option list" where
  "lag_block so lo t =
     (case so of
        None \<Rightarrow> []
      | Some s \<Rightarrow> (case lo of None \<Rightarrow> [] | Some ls \<Rightarrow> concat (map (\<lambda>lag. lagged_at s lag t) ls)))"

definition block_width :: "'c timeseries option \<Rightarrow> int list option \<Rightarrow> nat" where
  "block_width so lo =
     (case so of
        None \<Rightarrow> 0
      | Some s \<Rightarrow> (case lo of None \<Rightarrow> 0 | Some ls \<Rightarrow> length ls * ts_width s))"

definition spec_feature_row ::
  "regression_config \<Rightarrow> 'a option timeseries \<Rightarrow> 'a option timeseries option \<Rightarrow>
   'a option timeseries option \<Rightarrow> int \<Rightarrow> 'a option list" where
  "spec_feature_row self target past future t =
     lag_block (Some target) (lags_target (lags self)) t
     @ lag_block past (lags_past (lags self)) t
     @ lag_block future (lags_future (lags self)) t"

definition spec_label_row :: "regression_config \<Rightarrow> 'a option timeseries \<Rightarrow> int \<Rightarrow> 'a option list" where
  "spec_label_row self target t =
     concat (map (\<lambda>step. lagged_at target (int step) t) [0 ..< nat (output_chunk_length self)])"

definition spec_n_features ::
  "regression_config \<Rightarrow> 'c timeseries \<Rightarrow> 'c timeseries option \<Rightarrow> 'c timeseries option \<Rightarrow> nat" where
  "spec_n_features self target past future =
     block_width (Some target) (lags_target (lags self))
     + block_width past (lags_past (lags self))
     + block_width future (lags_future (lags self))"

section \<open>Floating-point numbers\<close>

text \<open>
  Python's \<^verbatim>\<open>float\<close> and numpy's \<^verbatim>\<open>float64\<close> are IEEE 754 binary64 numbers.  A
  finite one is a real number \<open>m * 2 ^ e\<close> with \<open>\<bar>m\<bar> < 2 ^ 53\<close> and
  \<open>- 1074 \<le> e \<le> 971\<close>; every finite double is a whole multiple of \<open>2 ^ - 1074\<close>.  An
  arithmetic operation returns the exact result rounded to the nearest double, ties
  going to the even significand; a result that rounds to \<open>2 ^ 1024\<close> or beyond in
  magnitude is an infinity.

  \<open>round_half_even\<close> rounds a real to the nearest integer, ties to even.  \<open>round_scaled\<close>
  rounds a real \<open>z\<close>, counted in units of \<open>2 ^ - 1074\<close>, to 53 significant bits: the
  spacing of the doubles around \<open>z\<close> is \<open>ulp_scaled z\<close>, which is one unit up to
  \<open>2 ^ 53\<close> units (the subnormal numbers and the first binades) and doubles with every
  further bit.  \<open>round64\<close> is the rounding of a real to a double; \<open>None\<close> stands for a
  result that is not finite.
\<close>

definition round_half_even :: "real \<Rightarrow> int" where
  "round_half_even y =
     (let f = \<lfloor>y\<rfloor>
      in if y - of_int f < 1 / 2 then f
         else if y - of_int f > 1 / 2 then f + 1
         else if even f then f else f + 1)"

definition ulp_scaled :: "real \<Rightarrow> real" where
  "ulp_scaled z = 2 ^ nat (bitlen \<lfloor>\<bar>z\<bar>\<rfloor> - 53)"

definition round_scaled :: "real \<Rightarrow> real" where
  "round_scaled z = ulp_scaled z * of_int (round_half_even (z / ulp_scaled z))"

definition round64 :: "real \<Rightarrow> real option" where
  "round64 x =
     (let r = round_scaled (x * 2 ^ 1074)
      in if \<bar>r\<bar> \<ge> 2 ^ 2098 then None else Some (r / 2 ^ 1074))"


text \<open>
  The four operations on finite doubles.  A division by zero gives an infinity or a NaN
  in numpy (with a warning, not an exception), which is \<open>None\<close> as well.
\<close>

definition fadd :: "real \<Rightarrow> real \<Rightarrow> real option" where
  "fadd a b = round64 (a + b)"

definition fsub :: "real \<Rightarrow> real \<Rightarrow> real option" where
  "fsub a b = round64 (a - b)"

definition fmul :: "real \<Rightarrow> real \<Rightarrow> real option" where
  "fmul a b = round64 (a * b)"

definition fdiv :: "real \<Rightarrow> real \<Rightarrow> real option" where
  "fdiv a b = (if b = 0 then None else round64 (a / b))"

section \<open>Arrays of regressor outputs\<close>

text \<open>
  A numpy array of one, two or three dimensions, as nested lists in row-major order.  The
  regressor \<^verbatim>\<open>self.model\<close> is any object with a \<^verbatim>\<open>predict\<close> method: here a
  function from the feature matrix to the array it returns.
\<close>

datatype 'c ndarray = A1 "'c list" | A2 "'c list list" | A3 "'c list list list"

type_synonym 'c regressor = "'c list list \<Rightarrow> 'c ndarray"

fun ndim :: "'c ndarray \<Rightarrow> nat" where
  "ndim (A1 _) = 1"
| "ndim (A2 _) = 2"
| "ndim (A3 _) = 3"

fun ravel :: "'c ndarray \<Rightarrow> 'c list" where
  "ravel (A1 xs) = xs"
| "ravel (A2 xss) = concat xss"
| "ravel (A3 xsss) = concat (map concat xsss)"

text \<open>
  \<^verbatim>\<open>a.reshape(k, output_chunk_length, -1)\<close> on the flattened array: the two given
  dimensions must be positive and their product must divide the size.
\<close>

definition reshape3 :: "nat \<Rightarrow> int \<Rightarrow> 'c list \<Rightarrow> error + 'c list list list" where
  "reshape3 k l flat =
     (if k = 0 \<or> l \<le> 0 then Inl ValueError
      else if length flat mod (k * nat l) \<noteq> 0 then Inl ValueError
      else
        let c = length flat div (k * nat l)
        in Inr (map (\<lambda>i. map (\<lambda>j. take c (drop ((i * nat l + j) * c) flat)) [0 ..< nat l]) [0 ..< k]))"

text \<open>Reading position \<open>i \<ge> 0\<close> of an axis: out of bounds is an \<^verbatim>\<open>IndexError\<close>.\<close>

definition take_at :: "'c list \<Rightarrow> nat \<Rightarrow> error + 'c" where
  "take_at xs i = (if i < length xs then Inr (xs ! i) else Inl IndexError)"

text \<open>Running a fallible function over a list, stopping at the first error.\<close>

fun mapE :: "('b \<Rightarrow> error + 'c) \<Rightarrow> 'b list \<Rightarrow> error + 'c list" where
  "mapE f [] = Inr []"
| "mapE f (x # xs) = bindE (f x) (\<lambda>v. bindE (mapE f xs) (\<lambda>vs. Inr (v # vs)))"

section \<open>Probabilistic sampling strategies: \<^verbatim>\<open>_LikelihoodMixin\<close>\<close>

text \<open>
  The pseudo-random generator \<^verbatim>\<open>self._rng\<close> is a state of type \<open>'g\<close> with three
  draw operations, each returning the draws and the next state.  \<open>rng_uniform\<close> is given
  the shape as an array of unit cells and returns one draw of \<open>[0, 1)\<close> per cell;
  \<open>rng_normal\<close> is given the vectors of means and of scales; \<open>rng_poisson\<close> the array of
  rates.
\<close>

record 'g rng_ops =
  rng_uniform :: "'g \<Rightarrow> unit list list list \<Rightarrow> real list list list \<times> 'g"
  rng_normal :: "'g \<Rightarrow> real list \<Rightarrow> real list \<Rightarrow> real list \<times> 'g"
  rng_poisson :: "'g \<Rightarrow> real list list list \<Rightarrow> real list list list \<times> 'g"

text \<open>
  The fields of \<^verbatim>\<open>self\<close> that the mixin reads or writes.  The model container is an
  \<^verbatim>\<open>OrderedDict\<close> from quantile level to fitted regressor.
\<close>

record 'g likelihood_model =
  lm_output_chunk_length :: int
  lm_model :: "real regressor"
  lm_model_container :: "(real \<times> real regressor) list"
  lm_quantiles :: "real list"
  lm_rng :: 'g

text \<open>
  Lines 886-915 of \<^verbatim>\<open>_quantile_sampling\<close> for one cell (row, step, component):
  \<open>outputs\<close> are the cell's values along the quantile axis and \<open>prob\<close> is the cell's
  uniform draw, all of them finite doubles.  The comparison \<^verbatim>\<open>p > tquantiles\<close>
  broadcasts the quantile axis of length \<open>n_quantiles\<close> against the list
  \<^verbatim>\<open>self.quantiles\<close>.  Lines 914-915 are four float64 operations for the weight and
  three for the sample:

  \<^verbatim>\<open>weights = (probs - left_q) / (right_q - left_q)\<close>

  \<^verbatim>\<open>inter = left_value + weights * (right_value - left_value)\<close>

  Once an intermediate result is an infinity or a NaN, so is the sample (the other
  operand of each later operation is finite, or the product is \<open>0 * inf\<close>, a NaN): the
  sample is \<open>None\<close> then.
\<close>

definition quantile_cell :: "real list \<Rightarrow> real list \<Rightarrow> real \<Rightarrow> error + real option" where
  "quantile_cell quantiles outputs prob =
     (let n_quantiles = length outputs;
          m = length quantiles
      in if n_quantiles \<noteq> m \<and> n_quantiles \<noteq> 1 \<and> m \<noteq> 1 then Inl ValueError
         else
           let cnt = length (filter (\<lambda>q. prob > q) quantiles);
               left_idx = (if m = 1 \<and> n_quantiles \<noteq> 1 then n_quantiles * cnt else cnt);
               right_idx = left_idx + 1
           in if n_quantiles = 0 then Inl IndexError
              else
                let repeat_count = ((replicate n_quantiles (1::nat))[0 := 2])[n_quantiles - 1 := 2];
                    shifted_output = concat (map2 replicate repeat_count outputs);
                    ext_quantiles = [0] @ quantiles @ [1]
                in bindE (take_at shifted_output left_idx) (\<lambda>left_value.
                   bindE (take_at shifted_output right_idx) (\<lambda>right_value.
                   bindE (take_at ext_quantiles left_idx) (\<lambda>left_q.
                   bindE (take_at ext_quantiles right_idx) (\<lambda>right_q.
                     Inr (Option.bind (fsub prob left_q) (\<lambda>num.
                          Option.bind (fsub right_q left_q) (\<lambda>den.
                          Option.bind (fdiv num den) (\<lambda>weights.
                          Option.bind (fsub right_value left_value) (\<lambda>diff.
                          Option.bind (fmul weights diff) (\<lambda>scaled.
                            fadd left_value scaled)))))))))))"

text \<open>
  \<^verbatim>\<open>_quantile_sampling\<close>, lines 860-917: one uniform draw per cell, then the
  interpolation cell by cell.  The array has the shape (rows, steps, components,
  quantiles).
\<close>

definition quantile_sampling ::
  "'g rng_ops \<Rightarrow> 'g likelihood_model \<Rightarrow> real list list list list \<Rightarrow>
   error + (real option list list list \<times> 'g likelihood_model)" where
  "quantile_sampling ops self model_output =
     (let (probs, g') = rng_uniform ops (lm_rng self) (map (map (map (\<lambda>_. ()))) model_output)
      in bindE (mapE (\<lambda>(row, prow).
                  mapE (\<lambda>(step, pstep).
                    mapE (\<lambda>(outputs, prob). quantile_cell (lm_quantiles self) outputs prob)
                      (zip step pstep))
                    (zip row prow))
                  (zip model_output probs))
           (\<lambda>inter. Inr (inter, self \<lparr> lm_rng := g' \<rparr>)))"

text \<open>
  \<^verbatim>\<open>np.stack(model_outputs, axis=-1)\<close> of arrays of the shape (rows, steps,
  components): at least one array, all of one shape.
\<close>

definition np_stack_last :: "'c list list list list \<Rightarrow> error + 'c list list list list" where
  "np_stack_last arrays =
     (case arrays of
        [] \<Rightarrow> Inl ValueError
      | a # _ \<Rightarrow>
          if (\<forall>b \<in> set arrays. map (map length) b = map (map length) a)
          then Inr (map (\<lambda>i. map (\<lambda>j. map (\<lambda>c. map (\<lambda>b. b ! i ! j ! c) arrays)
                                            [0 ..< length (a ! i ! j)])
                                  [0 ..< length (a ! i)])
                      [0 ..< length a])
          else Inl ValueError)"

text \<open>
  The loop of lines 761-768: each fitted quantile model becomes \<^verbatim>\<open>self.model\<close> and
  predicts.
\<close>

fun quantile_outputs ::
  "'g likelihood_model \<Rightarrow> real list list \<Rightarrow> (real \<times> real regressor) list \<Rightarrow>
   error + (real list list list list \<times> 'g likelihood_model)" where
  "quantile_outputs self x [] = Inr ([], self)"
| "quantile_outputs self x ((quantile, fitted) # rest) =
     (let self' = self \<lparr> lm_model := fitted \<rparr>
      in bindE (reshape3 (length x) (lm_output_chunk_length self') (ravel (fitted x))) (\<lambda>model_output.
         bindE (quantile_outputs self' x rest) (\<lambda>(model_outputs, self'').
           Inr (model_output # model_outputs, self''))))"

text \<open>\<^verbatim>\<open>_predict_quantiles\<close>, lines 749-776.\<close>

definition predict_quantiles ::
  "'g rng_ops \<Rightarrow> 'g likelihood_model \<Rightarrow> real list list \<Rightarrow> int \<Rightarrow>
   error + (real option list list list \<times> 'g likelihood_model)" where
  "predict_quantiles ops self x num_samples =
     (let k = length x
      in if num_samples = 1
         then (case map_of (lm_model_container self) (1 / 2) of
                 None \<Rightarrow> Inl KeyError
               | Some fitted \<Rightarrow>
                   bindE (reshape3 k (lm_output_chunk_length self) (ravel (fitted x))) (\<lambda>r.
                     Inr (map (map (map Some)) r, self)))
         else bindE (quantile_outputs self x (lm_model_container self)) (\<lambda>(model_outputs, self').
              bindE (np_stack_last model_outputs) (\<lambda>stacked.
                quantile_sampling ops self' stacked)))"

text \<open>\<^verbatim>\<open>model_output[:, 0]\<close> on an array of at most two dimensions (line 796).\<close>

fun first_column :: "'c ndarray \<Rightarrow> error + 'c list" where
  "first_column (A2 rows) = mapE (\<lambda>r. take_at r 0) rows"
| "first_column _ = Inl IndexError"

text \<open>\<^verbatim>\<open>model_output[0, :, :]\<close> on an array of three dimensions (line 798).\<close>

fun first_plane :: "'c ndarray \<Rightarrow> error + 'c list list" where
  "first_plane (A3 planes) = take_at planes 0"
| "first_plane _ = Inl IndexError"

text \<open>
  \<^verbatim>\<open>_normal_sampling\<close>, lines 815-837, on an array of the shape (channels, rows, 2):
  one vector of draws per channel, then the transpose and the reshape.  A negative
  scale is a \<^verbatim>\<open>ValueError\<close> of the generator.
\<close>

fun normal_draws ::
  "'g rng_ops \<Rightarrow> 'g \<Rightarrow> real list list list \<Rightarrow> error + (real list list \<times> 'g)" where
  "normal_draws ops g [] = Inr ([], g)"
| "normal_draws ops g (mu_sigma # rest) =
     bindE (mapE (\<lambda>r. take_at r 0) mu_sigma) (\<lambda>mu.
     bindE (mapE (\<lambda>r. take_at r 1) mu_sigma) (\<lambda>sigma.
       if (\<exists>s \<in> set sigma. s < 0) then Inl ValueError
       else
         let (sample, g') = rng_normal ops g mu sigma
         in bindE (normal_draws ops g' rest) (\<lambda>(samples, g'').
              Inr (sample # samples, g''))))"

definition normal_sampling ::
  "'g rng_ops \<Rightarrow> 'g likelihood_model \<Rightarrow> real list list list \<Rightarrow> int \<Rightarrow>
   error + (real list list list \<times> 'g likelihood_model)" where
  "normal_sampling ops self model_output n_samples =
     bindE (normal_draws ops (lm_rng self) model_output) (\<lambda>(list_of_samples, g').
       if n_samples \<le> 0 then Inl ValueError
       else
         bindE (reshape3 (nat n_samples) (lm_output_chunk_length self)
                  (concat (transpose list_of_samples))) (\<lambda>samples_reshaped.
           Inr (samples_reshaped, self \<lparr> lm_rng := g' \<rparr>)))"

text \<open>
  \<^verbatim>\<open>ndarray.transpose()\<close> of a three-dimensional array: the axes are reversed.
\<close>

definition transpose3 :: "'c list list list \<Rightarrow> 'c list list list" where
  "transpose3 a =
     (let n0 = length a;
          n1 = (if a = [] then 0 else length (hd a));
          n2 = (if a = [] \<or> hd a = [] then 0 else length (hd (hd a)))
      in map (\<lambda>k. map (\<lambda>j. map (\<lambda>i. a ! i ! j ! k) [0 ..< n0]) [0 ..< n1]) [0 ..< n2])"

text \<open>\<^verbatim>\<open>_predict_normal\<close>, lines 778-813.\<close>

definition predict_normal ::
  "'g rng_ops \<Rightarrow> 'g likelihood_model \<Rightarrow> real list list \<Rightarrow> int \<Rightarrow>
   error + (real list list list \<times> 'g likelihood_model)" where
  "predict_normal ops self x num_samples =
     (let k = length x;
          model_output = lm_model self x;
          output_dim = ndim model_output
      in if num_samples = 1
         then (if output_dim \<le> 2
               then bindE (first_column model_output) (\<lambda>output_slice.
                    bindE (reshape3 k (lm_output_chunk_length self) output_slice) (\<lambda>r. Inr (r, self)))
               else bindE (first_plane model_output) (\<lambda>output_slice.
                    bindE (reshape3 k (lm_output_chunk_length self) (concat output_slice)) (\<lambda>r.
                      Inr (r, self))))
         else (case model_output of
                 A1 _ \<Rightarrow> Inl IndexError
               | A2 rows \<Rightarrow> normal_sampling ops self [rows] num_samples
               | A3 planes \<Rightarrow> normal_sampling ops self (transpose3 planes) num_samples))"

text \<open>
  \<^verbatim>\<open>_poisson_sampling\<close>, lines 853-858.  The generator checks the whole array of
  rates before it draws: a negative rate is a \<^verbatim>\<open>ValueError\<close>, and so is a rate
  above numpy's \<^verbatim>\<open>POISSON_LAM_MAX\<close>, the double next to
  \<open>2 ^ 63 - 1 - 10 * sqrt (2 ^ 63 - 1)\<close>.
\<close>

definition POISSON_LAM_MAX :: real where
  "POISSON_LAM_MAX = 9223372006484770816"

definition poisson_sampling ::
  "'g rng_ops \<Rightarrow> 'g likelihood_model \<Rightarrow> real list list list \<Rightarrow>
   error + (real list list list \<times> 'g likelihood_model)" where
  "poisson_sampling ops self model_output =
     (if (\<exists>row \<in> set model_output. \<exists>step \<in> set row. \<exists>lam \<in> set step.
            lam < 0 \<or> lam > POISSON_LAM_MAX)
      then Inl ValueError
      else
        let (sample, g') = rng_poisson ops (lm_rng self) model_output
        in Inr (sample, self \<lparr> lm_rng := g' \<rparr>))"

text \<open>\<^verbatim>\<open>_predict_poisson\<close>, lines 839-851.\<close>

definition predict_poisson ::
  "'g rng_ops \<Rightarrow> 'g likelihood_model \<Rightarrow> real list list \<Rightarrow> int \<Rightarrow>
   error + (real list list list \<times> 'g likelihood_model)" where
  "predict_poisson ops self x num_samples =
     (let k = length x
      in bindE (reshape3 k (lm_output_chunk_length self) (ravel (lm_model self x))) (\<lambda>model_output.
           if num_samples = 1 then Inr (model_output, self)
           else poisson_sampling ops self model_output))"

section \<open>Autoregressive predictor: \<^verbatim>\<open>RegressionModel.predict\<close>\<close>

subsection \<open>The model after \<^verbatim>\<open>fit\<close> and its collaborators\<close>

text \<open>
  A series argument of \<^verbatim>\<open>fit\<close> and \<^verbatim>\<open>predict\<close> is one \<^verbatim>\<open>TimeSeries\<close> or a
  sequence of them.

  Modelled from the spec: \<^verbatim>\<open>series2seq\<close> (\<^verbatim>\<open>darts.utils.utils\<close>) is not part of the
  sources at hand.  The comment at its call sites says what it does: it guarantees
  that all inputs are either a list of \<^verbatim>\<open>TimeSeries\<close> or \<^verbatim>\<open>None\<close>.
\<close>

datatype 'c series_arg = Single "'c timeseries" | Many "'c timeseries list"

definition series2seq :: "'c series_arg option \<Rightarrow> 'c timeseries list option" where
  "series2seq a =
     (case a of
        None \<Rightarrow> None
      | Some (Single s) \<Rightarrow> Some [s]
      | Some (Many ss) \<Rightarrow> Some ss)"




subsection \<open>Inputs, lines 532-581\<close>




subsection \<open>Covariate windows, lines 585-635\<close>






subsection \<open>The prediction loop, lines 637-686\<close>






















section \<open>Basic facts\<close>

lemma bindE_simps: "bindE (Inl e) f = Inl e" "bindE (Inr v) f = f v"
  by (simp_all add: bindE_def)

lemma bindE_Inr_iff: "bindE m f = Inr r \<longleftrightarrow> (\<exists>v. m = Inr v \<and> f v = Inr r)"
  by (cases m) (simp_all add: bindE_def)

lemma init_Inr_iff:
  "RegressionModel_init la lp lf ocl = Inr m \<longleftrightarrow>
     \<not> (la = None \<and> lf = None \<and> lp = None) \<and> ocl > 0 \<and>
     (\<exists>t p f. set_target_lags la = Inr t \<and> set_past_lags lp = Inr p \<and> set_future_lags lf = Inr f \<and>
        m = \<lparr> lags = \<lparr> lags_target = t, lags_past = p, lags_future = f \<rparr>, output_chunk_length = ocl \<rparr>)"
  unfolding RegressionModel_init_def by (auto simp: bindE_Inr_iff)

lemmas init_defs =
  RegressionModel_init_def set_target_lags_def set_past_lags_def set_future_lags_def


section \<open>Rounding to a double\<close>


lemma rhe_of_int [simp]: "round_half_even (of_int k) = k"
  by (simp add: round_half_even_def)










lemma round_scaled_zero [simp]: "round_scaled 0 = 0"
  using rhe_of_int[of 0] by (simp add: round_scaled_def)



























section \<open>Lag specification\<close>

text \<open>
  C2 (amended).  When the target lags (respectively the past-covariate lags) are given as
  an explicit list and the constructor succeeds, every element of the list is strictly
  negative and the lag group is the list sorted ascending, or absent when the list is
  empty.  A list with an element \<open>\<ge> 0\<close> makes the constructor fail: with the error of
  line 171 for the target list, and with the error of line 186 for the past list once the
  target lags were accepted.  Sorting keeps every occurrence: the result has the same
  elements with the same multiplicities as the list given, so duplicates stay.
\<close>

theorem explicit_lag_list:
  "(RegressionModel_init (Some (LagsList l)) lp lf ocl = Inr m \<longrightarrow>
      (\<forall>lag \<in> set l. lag < 0) \<and>
      lags_target (lags m) = (if l = [] then None else Some (sort l))) \<and>
   (RegressionModel_init la (Some (LagsList l)) lf ocl = Inr m' \<longrightarrow>
      (\<forall>lag \<in> set l. lag < 0) \<and>
      lags_past (lags m') = (if l = [] then None else Some (sort l))) \<and>
   ((\<exists>lag \<in> set l. lag \<ge> 0) \<longrightarrow>
      RegressionModel_init (Some (LagsList l)) lp lf ocl = Inl (LagsElemNotNegative l) \<and>
      isl (RegressionModel_init la (Some (LagsList l)) lf ocl) \<and>
      (\<not> isl (set_target_lags la) \<longrightarrow>
         RegressionModel_init la (Some (LagsList l)) lf ocl = Inl (PastLagsElemNotNegative l))) \<and>
   sorted (sort l) \<and> mset (sort l) = mset l"
proof (intro conjI impI)
  assume "RegressionModel_init (Some (LagsList l)) lp lf ocl = Inr m"
  then obtain t where t: "set_target_lags (Some (LagsList l)) = Inr t" "lags_target (lags m) = t"
    by (auto simp: init_Inr_iff)
  from t(1) show "\<forall>lag \<in> set l. lag < 0"
    by (auto simp: set_target_lags_def split: if_splits)
  from t show "lags_target (lags m) = (if l = [] then None else Some (sort l))"
    by (auto simp: set_target_lags_def split: if_splits)
next
  assume "RegressionModel_init la (Some (LagsList l)) lf ocl = Inr m'"
  then obtain t where t: "set_past_lags (Some (LagsList l)) = Inr t" "lags_past (lags m') = t"
    by (auto simp: init_Inr_iff)
  from t(1) show "\<forall>lag \<in> set l. lag < 0"
    by (auto simp: set_past_lags_def split: if_splits)
  from t show "lags_past (lags m') = (if l = [] then None else Some (sort l))"
    by (auto simp: set_past_lags_def split: if_splits)
next
  assume n: "\<exists>lag \<in> set l. lag \<ge> 0"
  then have t: "set_target_lags (Some (LagsList l)) = Inl (LagsElemNotNegative l)"
    and p: "set_past_lags (Some (LagsList l)) = Inl (PastLagsElemNotNegative l)"
    by (auto simp: set_target_lags_def set_past_lags_def)
  show "RegressionModel_init (Some (LagsList l)) lp lf ocl = Inl (LagsElemNotNegative l)"
    unfolding RegressionModel_init_def using t by (simp add: bindE_simps)
  show "isl (RegressionModel_init la (Some (LagsList l)) lf ocl)"
    unfolding RegressionModel_init_def using p
    by (cases "set_target_lags la") (simp_all add: bindE_simps)
  assume "\<not> isl (set_target_lags la)"
  then show "RegressionModel_init la (Some (LagsList l)) lf ocl = Inl (PastLagsElemNotNegative l)"
    unfolding RegressionModel_init_def using p
    by (cases "set_target_lags la") (simp_all add: bindE_simps)
qed simp_all

theorem explicit_lag_list_witness:
  "RegressionModel_init (Some (LagsList [-1, -3, -1])) (Some (LagsList [-1, -3, -1])) None 1 =
     Inr \<lparr> lags = \<lparr> lags_target = Some [-3, -1, -1], lags_past = Some [-3, -1, -1], lags_future = None \<rparr>,
           output_chunk_length = 1 \<rparr>
   \<and> (-1 :: int) < 0 \<and> (-3 :: int) < 0
   \<and> sort [-1, -3, -1 :: int] = [-3, -1, -1]
   \<and> (\<exists>lag \<in> set [-2, 0 :: int]. lag \<ge> 0)
   \<and> RegressionModel_init (Some (LagsList [-2, 0])) None None 1 = Inl (LagsElemNotNegative [-2, 0])
   \<and> RegressionModel_init None (Some (LagsList [-2, 0])) None 1 = Inl (PastLagsElemNotNegative [-2, 0])"
proof -
  have e: "RegressionModel_init (Some (LagsList [-1, -3, -1])) (Some (LagsList [-1, -3, -1])) None 1 =
     Inr \<lparr> lags = \<lparr> lags_target = Some [-3, -1, -1], lags_past = Some [-3, -1, -1], lags_future = None \<rparr>,
           output_chunk_length = 1 \<rparr>"
    by (simp add: init_defs bindE_simps)
  have n: "\<exists>lag \<in> set [-2, 0 :: int]. lag \<ge> 0" by simp
  have t: "\<not> isl (set_target_lags None)" by (simp add: set_target_lags_def)
  note a = explicit_lag_list [of "[-1, -3, -1]" "Some (LagsList [-1, -3, -1])" None 1
      "\<lparr> lags = \<lparr> lags_target = Some [-3, -1, -1], lags_past = Some [-3, -1, -1], lags_future = None \<rparr>,
         output_chunk_length = 1 \<rparr>" "Some (LagsList [-1, -3, -1])"
      "\<lparr> lags = \<lparr> lags_target = Some [-3, -1, -1], lags_past = Some [-3, -1, -1], lags_future = None \<rparr>,
         output_chunk_length = 1 \<rparr>"]
  note b = explicit_lag_list [of "[-2, 0]" None None 1 _ None]
  from a e have "(-1 :: int) < 0 \<and> (-3 :: int) < 0" by simp
  moreover from b n t
  have "RegressionModel_init (Some (LagsList [-2, 0])) None None 1 = Inl (LagsElemNotNegative [-2, 0])"
    and "RegressionModel_init None (Some (LagsList [-2, 0])) None 1 = Inl (PastLagsElemNotNegative [-2, 0])"
    by blast+
  ultimately show ?thesis using e n by simp
qed

text \<open>
  C2 as stated fails: the list \<open>[-1, -1]\<close> is accepted and both occurrences are kept.
\<close>

theorem duplicate_lags_counterexample:
  "RegressionModel_init (Some (LagsList [-1, -1])) None None 1 =
     Inr \<lparr> lags = \<lparr> lags_target = Some [-1, -1], lags_past = None, lags_future = None \<rparr>,
           output_chunk_length = 1 \<rparr>
   \<and> \<not> distinct [-1, -1 :: int]"
  by (simp add: init_defs bindE_simps)

text \<open>
  C3.  When the future-covariate lags are given as a pair \<open>(p, f)\<close> and the constructor
  succeeds, both components are \<open>\<ge> 0\<close> and the future lag group is the ascending list
  \<open>-p, ..., f - 1\<close>, except that the pair \<open>(0, 0)\<close> gives no future group.  A pair
  with a negative component makes the constructor fail, with the error of line 194 once
  the target and past lags were accepted.
\<close>

theorem future_span_pair_lags:
  "(RegressionModel_init la lp (Some (LagsTuple p f)) ocl = Inr m \<longrightarrow>
      p \<ge> 0 \<and> f \<ge> 0 \<and>
      lags_future (lags m) = (if p = 0 \<and> f = 0 then None else Some [- p .. f - 1]) \<and>
      sorted [- p .. f - 1] \<and> distinct [- p .. f - 1] \<and> set [- p .. f - 1] = {- p .. f - 1}) \<and>
   (p < 0 \<or> f < 0 \<longrightarrow>
      isl (RegressionModel_init la lp (Some (LagsTuple p f)) ocl) \<and>
      (\<not> isl (set_target_lags la) \<and> \<not> isl (set_past_lags lp) \<longrightarrow>
         RegressionModel_init la lp (Some (LagsTuple p f)) ocl = Inl (FutureLagsTupleNegative p f)))"
proof (intro conjI impI)
  assume h: "RegressionModel_init la lp (Some (LagsTuple p f)) ocl = Inr m"
  then obtain fl where fl: "set_future_lags (Some (LagsTuple p f)) = Inr fl" "lags_future (lags m) = fl"
    by (auto simp: init_Inr_iff)
  from fl(1) show "p \<ge> 0" "f \<ge> 0" by (auto simp: set_future_lags_def split: if_splits)
  from fl show "lags_future (lags m) = (if p = 0 \<and> f = 0 then None else Some [- p .. f - 1])"
    by (auto simp: set_future_lags_def split: if_splits)
next
  assume n: "p < 0 \<or> f < 0"
  then have e: "set_future_lags (Some (LagsTuple p f)) = Inl (FutureLagsTupleNegative p f)"
    by (auto simp: set_future_lags_def)
  show "isl (RegressionModel_init la lp (Some (LagsTuple p f)) ocl)"
    unfolding RegressionModel_init_def using e
    by (cases "set_target_lags la"; cases "set_past_lags lp") (simp_all add: bindE_simps)
  assume "\<not> isl (set_target_lags la) \<and> \<not> isl (set_past_lags lp)"
  then show "RegressionModel_init la lp (Some (LagsTuple p f)) ocl = Inl (FutureLagsTupleNegative p f)"
    unfolding RegressionModel_init_def using e
    by (cases "set_target_lags la"; cases "set_past_lags lp") (simp_all add: bindE_simps)
qed simp_all

theorem future_span_pair_lags_witness:
  "RegressionModel_init None None (Some (LagsTuple 1 2)) 1 =
     Inr \<lparr> lags = \<lparr> lags_target = None, lags_past = None, lags_future = Some [-1, 0, 1] \<rparr>,
           output_chunk_length = 1 \<rparr>
   \<and> [- 1 .. 2 - 1] = [-1, 0, 1 :: int]
   \<and> RegressionModel_init (Some (LagsInt 1)) None (Some (LagsTuple 0 0)) 1 =
     Inr \<lparr> lags = \<lparr> lags_target = Some [-1], lags_past = None, lags_future = None \<rparr>,
           output_chunk_length = 1 \<rparr>
   \<and> ((-1 :: int) < 0 \<or> (0 :: int) < 0)
   \<and> RegressionModel_init None None (Some (LagsTuple (-1) 0)) 1 = Inl (FutureLagsTupleNegative (-1) 0)"
proof -
  have e: "RegressionModel_init None None (Some (LagsTuple 1 2)) 1 =
     Inr \<lparr> lags = \<lparr> lags_target = None, lags_past = None, lags_future = Some [-1, 0, 1] \<rparr>,
           output_chunk_length = 1 \<rparr>"
    by (simp add: init_defs bindE_simps upto.simps)
  have z: "RegressionModel_init (Some (LagsInt 1)) None (Some (LagsTuple 0 0)) 1 =
     Inr \<lparr> lags = \<lparr> lags_target = Some [-1], lags_past = None, lags_future = None \<rparr>,
           output_chunk_length = 1 \<rparr>"
    by (simp add: init_defs bindE_simps upto.simps)
  have u: "[- 1 .. 2 - 1] = [-1, 0, 1 :: int]" by (simp add: upto.simps)
  have t: "\<not> isl (set_target_lags None) \<and> \<not> isl (set_past_lags None)"
    by (simp add: set_target_lags_def set_past_lags_def)
  note a = future_span_pair_lags [of None None 1 2 1
      "\<lparr> lags = \<lparr> lags_target = None, lags_past = None, lags_future = Some [-1, 0, 1] \<rparr>,
         output_chunk_length = 1 \<rparr>"]
  note b = future_span_pair_lags [of None None "-1" 0 1]
  from a e have "(1 :: int) \<ge> 0 \<and> (2 :: int) \<ge> 0" by blast
  moreover from b t
  have "RegressionModel_init None None (Some (LagsTuple (-1) 0)) 1 = Inl (FutureLagsTupleNegative (-1) 0)"
    by simp
  ultimately show ?thesis using e z u by simp
qed

section \<open>Lagged-matrix builder\<close>

lemma scenario1_eval:
  "create_lagged_data
     \<lparr> lags = \<lparr> lags_target = Some [-2, -1], lags_past = None, lags_future = None \<rparr>,
       output_chunk_length = 1 \<rparr>
     [\<lparr> ts_start = 0, ts_freq = 1,
        ts_values = [[Some 0], [Some 1], [Some 2], [Some 3], [Some 4],
                     [Some 5], [Some 6], [Some 7], [Some 8], [Some (9::real)]],
        ts_width = 1, has_range_index = True \<rparr>]
     None None None
   = Inr ([[Some 0, Some 1], [Some 1, Some 2], [Some 2, Some 3], [Some 3, Some 4],
           [Some 4, Some 5], [Some 5, Some 6], [Some 6, Some 7], [Some 7, Some 8]],
          [[Some 2], [Some 3], [Some 4], [Some 5], [Some 6], [Some 7], [Some 8], [Some 9]])"
  by code_simp


text \<open>
  C1 (amended).  Scenario 1: the lag count 2 gives the target lag list \<open>[-2, -1]\<close>, and
  with \<^verbatim>\<open>output_chunk_length = 1\<close> the builder turns the single univariate series
  of the ten values \<open>0, ..., 9\<close> into exactly eight rows, those of the time indices
  \<open>2, ..., 9\<close>.  The feature row for time \<open>t\<close> is \<open>[v[t-2], v[t-1]]\<close>, the older
  lag first, and the label row is \<open>[v[t]]\<close>.
\<close>

theorem scenario1_rows:
  "RegressionModel_init (Some (LagsInt 2)) None None 1 =
     Inr \<lparr> lags = \<lparr> lags_target = Some [-2, -1], lags_past = None, lags_future = None \<rparr>,
           output_chunk_length = 1 \<rparr>
   \<and> create_lagged_data
     \<lparr> lags = \<lparr> lags_target = Some [-2, -1], lags_past = None, lags_future = None \<rparr>,
       output_chunk_length = 1 \<rparr>
     [\<lparr> ts_start = 0, ts_freq = 1,
        ts_values = [[Some 0], [Some 1], [Some 2], [Some 3], [Some 4],
                     [Some 5], [Some 6], [Some 7], [Some 8], [Some (9::real)]],
        ts_width = 1, has_range_index = True \<rparr>]
     None None None
   = Inr ([[Some 0, Some 1], [Some 1, Some 2], [Some 2, Some 3], [Some 3, Some 4],
           [Some 4, Some 5], [Some 5, Some 6], [Some 6, Some 7], [Some 7, Some 8]],
          [[Some 2], [Some 3], [Some 4], [Some 5], [Some 6], [Some 7], [Some 8], [Some 9]])"
  using scenario1_eval by (simp add: init_defs bindE_simps upto.simps)


text \<open>
  C1 as stated fails: the feature rows are not \<open>[v[t-1], v[t-2]]\<close>.
\<close>

theorem scenario1_counterexample:
  "create_lagged_data
     \<lparr> lags = \<lparr> lags_target = Some [-2, -1], lags_past = None, lags_future = None \<rparr>,
       output_chunk_length = 1 \<rparr>
     [\<lparr> ts_start = 0, ts_freq = 1,
        ts_values = [[Some 0], [Some 1], [Some 2], [Some 3], [Some 4],
                     [Some 5], [Some 6], [Some 7], [Some 8], [Some (9::real)]],
        ts_width = 1, has_range_index = True \<rparr>]
     None None None
   \<noteq> Inr ([[Some 1, Some 0], [Some 2, Some 1], [Some 3, Some 2], [Some 4, Some 3],
           [Some 5, Some 4], [Some 6, Some 5], [Some 7, Some 6], [Some 8, Some 7]],
          [[Some 2], [Some 3], [Some 4], [Some 5], [Some 6], [Some 7], [Some 8], [Some 9]])"
  using scenario1_eval by simp

lemma lagged_episodes_first_error:
  "i < length xs \<Longrightarrow>
   \<forall>j < i. \<not> isl (lagged_episode self n (k + j) (xs ! j) pc fc cap) \<Longrightarrow>
   lagged_episode self n (k + i) (xs ! i) pc fc cap = Inl e \<Longrightarrow>
   lagged_episodes self n k xs pc fc cap = Inl e"
proof (induction xs arbitrary: i k)
  case Nil
  then show ?case by simp
next
  case (Cons x xs)
  show ?case
  proof (cases i)
    case 0
    with Cons.prems show ?thesis by (simp add: bindE_simps)
  next
    case (Suc i')
    from Cons.prems(2) Suc have "\<not> isl (lagged_episode self n k x pc fc cap)"
      by (metis add.right_neutral nth_Cons_0 zero_less_Suc)
    then obtain r where r: "lagged_episode self n k x pc fc cap = Inr r"
      by (cases "lagged_episode self n k x pc fc cap") auto
    have "lagged_episodes self n (Suc k) xs pc fc cap = Inl e"
    proof (rule Cons.IH[of i'])
      show "i' < length xs" using Cons.prems(1) Suc by simp
      show "\<forall>j<i'. \<not> isl (lagged_episode self n (Suc k + j) (xs ! j) pc fc cap)"
      proof (intro allI impI)
        fix j assume "j < i'"
        then have "Suc j < i" using Suc by simp
        with Cons.prems(2) have "\<not> isl (lagged_episode self n (k + Suc j) ((x # xs) ! Suc j) pc fc cap)"
          by blast
        then show "\<not> isl (lagged_episode self n (Suc k + j) (xs ! j) pc fc cap)" by simp
      qed
      show "lagged_episode self n (Suc k + i') (xs ! i') pc fc cap = Inl e"
        using Cons.prems(3) Suc by simp
    qed
    with r show ?thesis by (simp add: bindE_simps)
  qed
qed


text \<open>
  C9.  Let episode \<open>idx\<close> be the first one whose build does not succeed: the episodes
  before it all build.  If the frames of episode \<open>idx\<close> can be made and no row is left
  after dropping the rows with a missing value and applying the sample cap, then the
  whole build fails with the data-insufficiency error of line 354, and that error
  carries the index \<open>idx\<close> exactly when the collection holds more than one series.
\<close>

theorem zero_rows_error:
  assumes "idx < length target_series"
    and "\<forall>j < idx. \<not> isl (lagged_episode self (length target_series) j (target_series ! j)
                             past_covariates future_covariates max_samples_per_ts)"
    and "episode_frames self idx (target_series ! idx) past_covariates future_covariates = Inr (df_X, df_X_y)"
    and "keep_most_recent max_samples_per_ts (dropna_values df_X_y) = []"
  shows "create_lagged_data self target_series past_covariates future_covariates max_samples_per_ts =
           Inl (NoTrainingSamples (if length target_series > 1 then Some idx else None))"
proof -
  have "lagged_episode self (length target_series) (0 + idx) (target_series ! idx)
          past_covariates future_covariates max_samples_per_ts =
        Inl (NoTrainingSamples (if length target_series > 1 then Some idx else None))"
    using assms(3,4) by (simp add: lagged_episode_def bindE_simps)
  with assms(1,2)
  have "lagged_episodes self (length target_series) 0 target_series
          past_covariates future_covariates max_samples_per_ts =
        Inl (NoTrainingSamples (if length target_series > 1 then Some idx else None))"
    by (intro lagged_episodes_first_error[of idx]) simp_all
  then show ?thesis by (simp add: create_lagged_data_def bindE_simps)
qed

lemma short_episode_eval0:
  "lagged_episode
     \<lparr> lags = \<lparr> lags_target = Some [-1], lags_past = None, lags_future = None \<rparr>, output_chunk_length = 1 \<rparr>
     2 0
     \<lparr> ts_start = 0, ts_freq = 1, ts_values = [[Some 1], [Some 2], [Some (3::real)]], ts_width = 1, has_range_index = True \<rparr>
     None None None
   = Inr ((1, [[Some 1], [Some 2]]), 1, [[Some 2], [Some 3]])"
  by code_simp

lemma short_episode_eval1:
  "episode_frames
     \<lparr> lags = \<lparr> lags_target = Some [-1], lags_past = None, lags_future = None \<rparr>, output_chunk_length = 1 \<rparr>
     1
     \<lparr> ts_start = 0, ts_freq = 1, ts_values = [[Some (5::real)]], ts_width = 1, has_range_index = True \<rparr>
     None None
   = Inr (\<lparr>df_index = [0], df_rows = [[None]], df_ncols = 1\<rparr>,
          \<lparr>df_index = [0], df_rows = [[None, Some 5]], df_ncols = 2\<rparr>)"
  by code_simp

theorem zero_rows_error_witness:
  "create_lagged_data
     \<lparr> lags = \<lparr> lags_target = Some [-1], lags_past = None, lags_future = None \<rparr>, output_chunk_length = 1 \<rparr>
     [\<lparr> ts_start = 0, ts_freq = 1, ts_values = [[Some 1], [Some 2], [Some (3::real)]], ts_width = 1, has_range_index = True \<rparr>,
      \<lparr> ts_start = 0, ts_freq = 1, ts_values = [[Some (5::real)]], ts_width = 1, has_range_index = True \<rparr>]
     None None None
   = Inl (NoTrainingSamples (Some 1))
   \<and> create_lagged_data
     \<lparr> lags = \<lparr> lags_target = Some [-1], lags_past = None, lags_future = None \<rparr>, output_chunk_length = 1 \<rparr>
     [\<lparr> ts_start = 0, ts_freq = 1, ts_values = [[Some (5::real)]], ts_width = 1, has_range_index = True \<rparr>]
     None None None
   = Inl (NoTrainingSamples None)"
proof -
  have e0: "episode_frames
     \<lparr> lags = \<lparr> lags_target = Some [-1], lags_past = None, lags_future = None \<rparr>, output_chunk_length = 1 \<rparr>
     0
     \<lparr> ts_start = 0, ts_freq = 1, ts_values = [[Some (5::real)]], ts_width = 1, has_range_index = True \<rparr>
     None None
   = Inr (\<lparr>df_index = [0], df_rows = [[None]], df_ncols = 1\<rparr>,
          \<lparr>df_index = [0], df_rows = [[None, Some 5]], df_ncols = 2\<rparr>)"
    by code_simp
  have k: "keep_most_recent None (dropna_values \<lparr>df_index = [0], df_rows = [[None, Some (5::real)]], df_ncols = 2\<rparr>) = []"
    by (simp add: keep_most_recent_def dropna_values_def)
  have h2: "\<forall>j < (1::nat). \<not> isl (lagged_episode
     \<lparr> lags = \<lparr> lags_target = Some [-1], lags_past = None, lags_future = None \<rparr>, output_chunk_length = 1 \<rparr>
     (length [\<lparr> ts_start = 0, ts_freq = 1, ts_values = [[Some 1], [Some 2], [Some (3::real)]], ts_width = 1, has_range_index = True \<rparr>,
      \<lparr> ts_start = 0, ts_freq = 1, ts_values = [[Some (5::real)]], ts_width = 1, has_range_index = True \<rparr>]) j
     ([\<lparr> ts_start = 0, ts_freq = 1, ts_values = [[Some 1], [Some 2], [Some (3::real)]], ts_width = 1, has_range_index = True \<rparr>,
      \<lparr> ts_start = 0, ts_freq = 1, ts_values = [[Some (5::real)]], ts_width = 1, has_range_index = True \<rparr>] ! j)
     None None None)"
    using short_episode_eval0 by (simp add: numeral_2_eq_2)
  have h3: "episode_frames
     \<lparr> lags = \<lparr> lags_target = Some [-1], lags_past = None, lags_future = None \<rparr>, output_chunk_length = 1 \<rparr>
     1
     ([\<lparr> ts_start = 0, ts_freq = 1, ts_values = [[Some 1], [Some 2], [Some (3::real)]], ts_width = 1, has_range_index = True \<rparr>,
      \<lparr> ts_start = 0, ts_freq = 1, ts_values = [[Some (5::real)]], ts_width = 1, has_range_index = True \<rparr>] ! 1)
     None None
   = Inr (\<lparr>df_index = [0], df_rows = [[None]], df_ncols = 1\<rparr>,
          \<lparr>df_index = [0], df_rows = [[None, Some 5]], df_ncols = 2\<rparr>)"
    using short_episode_eval1 by simp
  have a: "create_lagged_data
     \<lparr> lags = \<lparr> lags_target = Some [-1], lags_past = None, lags_future = None \<rparr>, output_chunk_length = 1 \<rparr>
     [\<lparr> ts_start = 0, ts_freq = 1, ts_values = [[Some 1], [Some 2], [Some (3::real)]], ts_width = 1, has_range_index = True \<rparr>,
      \<lparr> ts_start = 0, ts_freq = 1, ts_values = [[Some (5::real)]], ts_width = 1, has_range_index = True \<rparr>]
     None None None
   = Inl (NoTrainingSamples (Some 1))"
    using zero_rows_error [OF _ h2 h3 k] by simp
  have g3: "episode_frames
     \<lparr> lags = \<lparr> lags_target = Some [-1], lags_past = None, lags_future = None \<rparr>, output_chunk_length = 1 \<rparr>
     0
     ([\<lparr> ts_start = 0, ts_freq = 1, ts_values = [[Some (5::real)]], ts_width = 1, has_range_index = True \<rparr>] ! 0)
     None None
   = Inr (\<lparr>df_index = [0], df_rows = [[None]], df_ncols = 1\<rparr>,
          \<lparr>df_index = [0], df_rows = [[None, Some 5]], df_ncols = 2\<rparr>)"
    using e0 by simp
  have b: "create_lagged_data
     \<lparr> lags = \<lparr> lags_target = Some [-1], lags_past = None, lags_future = None \<rparr>, output_chunk_length = 1 \<rparr>
     [\<lparr> ts_start = 0, ts_freq = 1, ts_values = [[Some (5::real)]], ts_width = 1, has_range_index = True \<rparr>]
     None None None
   = Inl (NoTrainingSamples None)"
    using zero_rows_error [OF _ _ g3 k] by simp
  from a b show ?thesis by simp
qed

subsection \<open>Data frames against the layout\<close>

lemma df_shift_fields [simp]:
  "df_index (df_shift k df) = df_index df"
  "df_ncols (df_shift k df) = df_ncols df"
  "length (df_rows (df_shift k df)) = length (df_rows df)"
  by (auto simp: df_shift_def Let_def)

lemma df_shift_nth:
  assumes "i < length (df_rows df)"
  shows "df_rows (df_shift k df) ! i =
           (if 0 \<le> int i - k \<and> int i - k < int (length (df_rows df))
            then df_rows df ! nat (int i - k)
            else replicate (df_ncols df) None)"
proof (cases "k \<ge> 0")
  case True
  define m where "m = nat k"
  have k: "k = int m" using True by (simp add: m_def)
  show ?thesis
  proof (cases "i < m")
    case True
    with assms show ?thesis by (simp add: df_shift_def Let_def k nth_append)
  next
    case False
    then have "nat (int i - int m) = i - m" by simp
    with False assms show ?thesis
      by (simp add: df_shift_def Let_def k nth_append min_def)
  qed
next
  case False
  define m where "m = nat (- k)"
  have k: "k = - int m" using False by (simp add: m_def)
  have n: "nat (int i + int m) = i + m" by (simp add: nat_add_distrib)
  show ?thesis
  proof (cases "i < length (df_rows df) - m")
    case True
    with assms show ?thesis
      by (simp add: df_shift_def Let_def k nth_append n add.commute)
  next
    case False
    with assms have "i - (length (df_rows df) - m) < min m (length (df_rows df))" by arith
    moreover from False have "\<not> int i + int m < int (length (df_rows df))" by linarith
    ultimately show ?thesis using False assms
      by (simp add: df_shift_def Let_def k nth_append n)
  qed
qed

lemma distinct_time_index: "ts_freq s > 0 \<Longrightarrow> distinct (time_index s)"
  by (auto simp: time_index_def distinct_map inj_on_def)

lemma df_loc_outside:
  "t \<notin> set (df_index df) \<Longrightarrow> df_loc df t = replicate (df_ncols df) None"
proof -
  assume "t \<notin> set (df_index df)"
  then have "map_of (zip (df_index df) (df_rows df)) t = None"
    by (auto simp: map_of_eq_None_iff dest: set_zip_leftD)
  then show ?thesis by (simp add: df_loc_def)
qed

lemma df_loc_shift:
  assumes "ts_freq s > 0"
  shows "df_loc (df_shift k (pd_dataframe s)) t = lagged_at s (- k) t"
proof -
  let ?n = "length (ts_values s)"
  let ?D = "df_shift k (pd_dataframe s)"
  have len: "length (df_index ?D) = length (df_rows ?D)"
    by (simp add: pd_dataframe_def time_index_def)
  show ?thesis
  proof (cases "\<exists>i < ?n. t = ts_start s + int i * ts_freq s")
    case True
    then obtain i where i: "i < ?n" "t = ts_start s + int i * ts_freq s" by blast
    have ti: "time_index s ! i = t" using i by (simp add: time_index_def)
    have "map_of (zip (df_index ?D) (df_rows ?D)) (df_index ?D ! i) = Some (df_rows ?D ! i)"
      using len i(1) distinct_time_index[OF assms]
      by (intro map_of_zip_nth) (simp_all add: pd_dataframe_def)
    then have loc: "df_loc ?D t = df_rows ?D ! i"
      using ti by (simp add: df_loc_def pd_dataframe_def)
    have d: "(t - ts_start s) div ts_freq s = int i" "(t - ts_start s) mod ts_freq s = 0"
      using i(2) assms by simp_all
    have "df_rows ?D ! i =
           (if 0 \<le> int i - k \<and> int i - k < int ?n
            then ts_values s ! nat (int i - k)
            else replicate (ts_width s) None)"
      using df_shift_nth[of i "pd_dataframe s" k] i(1) by (simp add: pd_dataframe_def)
    with loc d i(1) show ?thesis by (simp add: lagged_at_def Let_def)
  next
    case False
    then have "t \<notin> set (df_index ?D)"
      by (auto simp: pd_dataframe_def time_index_def)
    then have loc: "df_loc ?D t = replicate (ts_width s) None"
      using df_loc_outside[of t ?D] by (simp add: pd_dataframe_def)
    have "\<not> ((t - ts_start s) mod ts_freq s = 0 \<and> 0 \<le> (t - ts_start s) div ts_freq s
              \<and> (t - ts_start s) div ts_freq s < int ?n)"
    proof
      assume a: "(t - ts_start s) mod ts_freq s = 0 \<and> 0 \<le> (t - ts_start s) div ts_freq s
              \<and> (t - ts_start s) div ts_freq s < int ?n"
      define i where "i = nat ((t - ts_start s) div ts_freq s)"
      have "int i = (t - ts_start s) div ts_freq s" using a by (simp add: i_def)
      moreover have "t - ts_start s = ((t - ts_start s) div ts_freq s) * ts_freq s"
        using a by (metis add.right_neutral div_mult_mod_eq)
      ultimately have "t = ts_start s + int i * ts_freq s" by simp
      moreover have "i < ?n" using a unfolding i_def by linarith
      ultimately show False using False by blast
    qed
    with loc show ?thesis by (auto simp: lagged_at_def Let_def)
  qed
qed

lemma concat_replicate_None:
  "concat (map (\<lambda>d. replicate (f d) None) xs) = replicate (sum_list (map f xs)) None"
  by (induction xs) (simp_all add: replicate_add)

lemma df_loc_pd_concat:
  assumes "pd_concat dfs = Inr D"
  shows "df_loc D t = concat (map (\<lambda>d. df_loc d t) dfs)"
proof -
  from assms have D: "D = \<lparr> df_index = sort (remdups (concat (map df_index dfs))),
                 df_rows = map (\<lambda>t. concat (map (\<lambda>d. df_loc d t) dfs)) (sort (remdups (concat (map df_index dfs)))),
                 df_ncols = sum_list (map df_ncols dfs) \<rparr>"
    by (auto simp: pd_concat_def Let_def split: if_splits)
  show ?thesis
  proof (cases "t \<in> set (df_index D)")
    case True
    then show ?thesis by (simp add: df_loc_def D map_of_zip_map)
  next
    case False
    then have "\<forall>d \<in> set dfs. t \<notin> set (df_index d)" by (auto simp: D)
    then have eq: "map (\<lambda>d. df_loc d t) dfs = map (\<lambda>d. replicate (df_ncols d) None) dfs"
      by (auto simp: df_loc_outside)
    have "df_loc D t = replicate (sum_list (map df_ncols dfs)) None"
      using df_loc_outside[OF False] by (simp add: D)
    then show ?thesis unfolding eq concat_replicate_None .
  qed
qed

lemma pd_concat_rows:
  assumes "pd_concat dfs = Inr D"
  shows "\<forall>r \<in> set (df_rows D). \<exists>t. r = df_loc D t"
proof -
  from assms have D: "D = \<lparr> df_index = sort (remdups (concat (map df_index dfs))),
                 df_rows = map (\<lambda>t. concat (map (\<lambda>d. df_loc d t) dfs)) (sort (remdups (concat (map df_index dfs)))),
                 df_ncols = sum_list (map df_ncols dfs) \<rparr>"
    by (auto simp: pd_concat_def Let_def split: if_splits)
  show ?thesis
  proof
    fix r assume "r \<in> set (df_rows D)"
    then obtain t where "r = concat (map (\<lambda>d. df_loc d t) dfs)" by (auto simp: D)
    then show "\<exists>t. r = df_loc D t" using df_loc_pd_concat[OF assms] by auto
  qed
qed

lemma pd_concat_ncols: "pd_concat dfs = Inr D \<Longrightarrow> df_ncols D = sum_list (map df_ncols dfs)"
  by (auto simp: pd_concat_def Let_def split: if_splits)

lemma length_lagged_at:
  "\<forall>r \<in> set (ts_values s). length r = ts_width s \<Longrightarrow> length (lagged_at s lag t) = ts_width s"
  by (auto simp: lagged_at_def Let_def)

lemma pd_dataframe_ncols: "df_ncols (pd_dataframe s) = ts_width s"
  by (simp add: pd_dataframe_def)

lemma length_lag_block:
  "(\<forall>s. so = Some s \<longrightarrow> wf_ts s) \<Longrightarrow> length (lag_block so lo t) = block_width so lo"
  by (auto simp: lag_block_def block_width_def wf_ts_def length_concat length_lagged_at
           sum_list_triv comp_def split: option.splits)

lemma target_frames_block:
  assumes "ts_freq s > 0"
  shows "concat (map (\<lambda>d. df_loc d t)
           (case lo of None \<Rightarrow> [] | Some ls \<Rightarrow> map (\<lambda>lag. df_shift (- lag) (pd_dataframe s)) ls))
         = lag_block (Some s) lo t"
    and "sum_list (map df_ncols
           (case lo of None \<Rightarrow> [] | Some ls \<Rightarrow> map (\<lambda>lag. df_shift (- lag) (pd_dataframe s)) ls))
         = block_width (Some s) lo"
  using assms
  by (auto simp: lag_block_def block_width_def comp_def df_loc_shift pd_dataframe_ncols sum_list_triv
           split: option.splits)

lemma cov_frame_Inr:
  assumes "cov_frame covs idx = Inr df"
  shows "df = map_option pd_dataframe (cov_at covs idx)"
  using assms
  by (auto simp: cov_frame_def cov_at_def list_get_def bindE_def split: option.splits if_splits)

lemma cov_at_in_set: "cov_at covs idx = Some s \<Longrightarrow> \<exists>cs. covs = Some cs \<and> s \<in> set cs"
  by (auto simp: cov_at_def split: option.splits if_splits)

lemma cov_frames_block:
  assumes "cov_lag_frames (map_option pd_dataframe so) lo = Inr frames"
    and "\<forall>s. so = Some s \<longrightarrow> ts_freq s > 0"
  shows "concat (map (\<lambda>d. df_loc d t) frames) = lag_block so lo t"
    and "sum_list (map df_ncols frames) = block_width so lo"
  using assms
  by (auto simp: cov_lag_frames_def lag_block_def block_width_def comp_def df_loc_shift
           pd_dataframe_ncols sum_list_triv split: option.splits if_splits)

lemma label_frames_block:
  assumes "ts_freq s > 0"
  shows "concat (map (\<lambda>d. df_loc d t)
           (map (\<lambda>future_target_lag. df_shift (- int future_target_lag) (pd_dataframe s)) [0 ..< nat ocl]))
         = concat (map (\<lambda>step. lagged_at s (int step) t) [0 ..< nat ocl])"
    and "sum_list (map df_ncols
           (map (\<lambda>future_target_lag. df_shift (- int future_target_lag) (pd_dataframe s)) [0 ..< nat ocl]))
         = nat ocl * ts_width s"
  using assms
  by (simp_all add: comp_def df_loc_shift pd_dataframe_ncols sum_list_triv)

lemma episode_frames_layout:
  assumes ef: "episode_frames self idx target_ts past_covariates future_covariates = Inr (df_X, df_X_y)"
    and wt: "wf_ts target_ts"
    and wp: "\<forall>s. cov_at past_covariates idx = Some s \<longrightarrow> wf_ts s"
    and wf: "\<forall>s. cov_at future_covariates idx = Some s \<longrightarrow> wf_ts s"
  shows "df_ncols df_X =
           spec_n_features self target_ts (cov_at past_covariates idx) (cov_at future_covariates idx)"
    and "df_ncols df_X_y = df_ncols df_X + nat (output_chunk_length self) * ts_width target_ts"
    and "\<forall>r \<in> set (df_rows df_X_y). \<exists>t.
           r = spec_feature_row self target_ts (cov_at past_covariates idx) (cov_at future_covariates idx) t
               @ spec_label_row self target_ts t"
proof -
  let ?po = "cov_at past_covariates idx" and ?fo = "cov_at future_covariates idx"
  let ?T = "case lags_target (lags self) of None \<Rightarrow> []
            | Some ls \<Rightarrow> map (\<lambda>lag. df_shift (- lag) (pd_dataframe target_ts)) ls"
  let ?Y = "map (\<lambda>future_target_lag. df_shift (- int future_target_lag) (pd_dataframe target_ts))
              [0 ..< nat (output_chunk_length self)]"
  from ef obtain dfp dff P F df_y where
        dfp: "cov_frame past_covariates idx = Inr dfp"
    and dff: "cov_frame future_covariates idx = Inr dff"
    and P: "cov_lag_frames dfp (lags_past (lags self)) = Inr P"
    and F: "cov_lag_frames dff (lags_future (lags self)) = Inr F"
    and X: "pd_concat (?T @ P @ F) = Inr df_X"
    and Y: "pd_concat ?Y = Inr df_y"
    and XY: "pd_concat [df_X, df_y] = Inr df_X_y"
    unfolding episode_frames_def Let_def bindE_Inr_iff by auto
  have ft: "ts_freq target_ts > 0" using wt by (simp add: wf_ts_def)
  have fp: "\<forall>s. ?po = Some s \<longrightarrow> ts_freq s > 0" using wp by (simp add: wf_ts_def)
  have ff: "\<forall>s. ?fo = Some s \<longrightarrow> ts_freq s > 0" using wf by (simp add: wf_ts_def)
  note P' = P[unfolded cov_frame_Inr[OF dfp]] and F' = F[unfolded cov_frame_Inr[OF dff]]
  have locX: "df_loc df_X t =
      spec_feature_row self target_ts ?po ?fo t" for t
    unfolding df_loc_pd_concat[OF X] spec_feature_row_def map_append concat_append
      target_frames_block(1)[OF ft] cov_frames_block(1)[OF P' fp] cov_frames_block(1)[OF F' ff] ..
  have locY: "df_loc df_y t = spec_label_row self target_ts t" for t
    unfolding df_loc_pd_concat[OF Y] spec_label_row_def label_frames_block(1)[OF ft] ..
  show nX: "df_ncols df_X = spec_n_features self target_ts ?po ?fo"
    unfolding pd_concat_ncols[OF X] spec_n_features_def map_append sum_list_append
      target_frames_block(2)[OF ft] cov_frames_block(2)[OF P' fp] cov_frames_block(2)[OF F' ff]
    by simp
  have nY: "df_ncols df_y = nat (output_chunk_length self) * ts_width target_ts"
    unfolding pd_concat_ncols[OF Y] label_frames_block(2)[OF ft] ..
  show "df_ncols df_X_y = df_ncols df_X + nat (output_chunk_length self) * ts_width target_ts"
    using pd_concat_ncols[OF XY] nY by simp
  show "\<forall>r \<in> set (df_rows df_X_y). \<exists>t.
           r = spec_feature_row self target_ts ?po ?fo t @ spec_label_row self target_ts t"
  proof
    fix r assume "r \<in> set (df_rows df_X_y)"
    then obtain t where "r = df_loc df_X_y t" using pd_concat_rows[OF XY] by blast
    then have "r = df_loc df_X t @ df_loc df_y t" using df_loc_pd_concat[OF XY] by simp
    then show "\<exists>t. r = spec_feature_row self target_ts ?po ?fo t @ spec_label_row self target_ts t"
      using locX locY by auto
  qed
qed

lemma set_keep_most_recent: "set (keep_most_recent cap xs) \<subseteq> set xs"
  by (auto simp: keep_most_recent_def split: option.splits dest: in_set_dropD)

lemma length_spec_feature_row:
  assumes "wf_ts target_ts" "\<forall>s. po = Some s \<longrightarrow> wf_ts s" "\<forall>s. fo = Some s \<longrightarrow> wf_ts s"
  shows "length (spec_feature_row self target_ts po fo t) = spec_n_features self target_ts po fo"
  using assms by (simp add: spec_feature_row_def spec_n_features_def length_lag_block)

lemma length_spec_label_row:
  assumes "wf_ts target_ts"
  shows "length (spec_label_row self target_ts t) = nat (output_chunk_length self) * ts_width target_ts"
  using assms
  by (simp add: spec_label_row_def length_concat comp_def length_lagged_at wf_ts_def sum_list_triv)

lemma lagged_episode_layout:
  assumes le: "lagged_episode self n_series idx target_ts past_covariates future_covariates cap
                 = Inr ((nX, X), (nY, Y))"
    and wt: "wf_ts target_ts"
    and wp: "\<forall>s. cov_at past_covariates idx = Some s \<longrightarrow> wf_ts s"
    and wf: "\<forall>s. cov_at future_covariates idx = Some s \<longrightarrow> wf_ts s"
  shows "nX = spec_n_features self target_ts (cov_at past_covariates idx) (cov_at future_covariates idx)"
    and "nY = nat (output_chunk_length self) * ts_width target_ts"
    and "\<forall>r \<in> set X. None \<notin> set r \<and> (\<exists>t.
           r = spec_feature_row self target_ts (cov_at past_covariates idx) (cov_at future_covariates idx) t)"
    and "\<forall>r \<in> set Y. None \<notin> set r \<and> (\<exists>t. r = spec_label_row self target_ts t)"
    and "X \<noteq> []"
proof -
  let ?po = "cov_at past_covariates idx" and ?fo = "cov_at future_covariates idx"
  from le obtain df_X df_X_y where
      ef: "episode_frames self idx target_ts past_covariates future_covariates = Inr (df_X, df_X_y)"
    and ne: "keep_most_recent cap (dropna_values df_X_y) \<noteq> []"
    and nX: "nX = df_ncols df_X" and nY: "nY = df_ncols df_X_y - df_ncols df_X"
    and X: "X = map (take (df_ncols df_X)) (keep_most_recent cap (dropna_values df_X_y))"
    and Y: "Y = map (drop (df_ncols df_X)) (keep_most_recent cap (dropna_values df_X_y))"
    unfolding lagged_episode_def bindE_Inr_iff Let_def by (auto split: if_splits)
  note L = episode_frames_layout[OF ef wt wp wf]
  show "nX = spec_n_features self target_ts ?po ?fo" using nX L(1) by simp
  show "nY = nat (output_chunk_length self) * ts_width target_ts" using nY L(2) by simp
  show "X \<noteq> []" using ne X by simp
  have inrows: "r \<in> set (df_rows df_X_y) \<and> None \<notin> set r"
    if "r \<in> set (keep_most_recent cap (dropna_values df_X_y))" for r
  proof -
    from that have "r \<in> set (dropna_values df_X_y)"
      by (rule subsetD[OF set_keep_most_recent])
    then show ?thesis by (simp add: dropna_values_def)
  qed
  have rows: "\<exists>t. r = spec_feature_row self target_ts ?po ?fo t @ spec_label_row self target_ts t"
    if "r \<in> set (keep_most_recent cap (dropna_values df_X_y))" for r
    using inrows[OF that] L(3) by blast
  have nonan: "None \<notin> set r"
    if "r \<in> set (keep_most_recent cap (dropna_values df_X_y))" for r
    using inrows[OF that] by blast
  have len: "length (spec_feature_row self target_ts ?po ?fo t) = df_ncols df_X" for t
    using length_spec_feature_row[OF wt wp wf] L(1) by simp
  show "\<forall>r \<in> set X. None \<notin> set r \<and> (\<exists>t. r = spec_feature_row self target_ts ?po ?fo t)"
  proof
    fix r assume "r \<in> set X"
    then obtain r' where r': "r' \<in> set (keep_most_recent cap (dropna_values df_X_y))"
      "r = take (df_ncols df_X) r'" using X by auto
    from rows[OF r'(1)] obtain t where
      t: "r' = spec_feature_row self target_ts ?po ?fo t @ spec_label_row self target_ts t" by blast
    have "r = spec_feature_row self target_ts ?po ?fo t" using r'(2) t len[of t] by simp
    moreover have "None \<notin> set r" using nonan[OF r'(1)] r'(2) by (auto dest: in_set_takeD)
    ultimately show "None \<notin> set r \<and> (\<exists>t. r = spec_feature_row self target_ts ?po ?fo t)" by blast
  qed
  show "\<forall>r \<in> set Y. None \<notin> set r \<and> (\<exists>t. r = spec_label_row self target_ts t)"
  proof
    fix r assume "r \<in> set Y"
    then obtain r' where r': "r' \<in> set (keep_most_recent cap (dropna_values df_X_y))"
      "r = drop (df_ncols df_X) r'" using Y by auto
    from rows[OF r'(1)] obtain t where
      t: "r' = spec_feature_row self target_ts ?po ?fo t @ spec_label_row self target_ts t" by blast
    have "r = spec_label_row self target_ts t" using r'(2) t len[of t] by simp
    moreover have "None \<notin> set r" using nonan[OF r'(1)] r'(2) by (auto dest: in_set_dropD)
    ultimately show "None \<notin> set r \<and> (\<exists>t. r = spec_label_row self target_ts t)" by blast
  qed
qed

lemma lagged_episodes_Inr:
  "lagged_episodes self n k xs pc fc cap = Inr Xys \<Longrightarrow>
   length Xys = length xs \<and>
   (\<forall>i < length xs. lagged_episode self n (k + i) (xs ! i) pc fc cap = Inr (Xys ! i))"
proof (induction xs arbitrary: k Xys)
  case Nil
  then show ?case by simp
next
  case (Cons x xs)
  from Cons.prems obtain Xy rest where
    Xy: "lagged_episode self n k x pc fc cap = Inr Xy"
    and rest: "lagged_episodes self n (Suc k) xs pc fc cap = Inr rest"
    and Xys: "Xys = Xy # rest"
    by (auto simp: bindE_Inr_iff)
  from Cons.IH[OF rest] have len: "length rest = length xs"
    and ih: "\<forall>i < length xs. lagged_episode self n (Suc k + i) (xs ! i) pc fc cap = Inr (rest ! i)"
    by blast+
  show ?case
  proof (intro conjI allI impI)
    show "length Xys = length (x # xs)" using len Xys by simp
    fix i assume "i < length (x # xs)"
    then show "lagged_episode self n (k + i) ((x # xs) ! i) pc fc cap = Inr (Xys ! i)"
      using Xy ih Xys by (cases i) simp_all
  qed
qed

lemma sort_eq_Nil_iff: "sort xs = [] \<longleftrightarrow> xs = []"
  by (metis length_0_conv length_sort)

lemma np_concatenate0_Inr:
  assumes "np_concatenate0 arrays = Inr M"
  shows "arrays \<noteq> []" and "\<forall>a \<in> set arrays. \<forall>b \<in> set arrays. fst a = fst b"
    and "M = concat (map snd arrays)"
  using assms by (auto simp: np_concatenate0_def split: list.splits if_splits)

text \<open>
  C4.  Let the configuration come from the constructor and let the builder succeed on a
  collection of well-formed series (every row of a series has as many cells as the series
  has components, and the frequency is positive).  Then, for every episode of the
  collection, every row of \<open>X\<close> has as many columns as the sum, over the target, past
  and future groups that are present, of the number of lags of the group times the width
  of the group's series, and every row of \<open>y\<close> has \<open>output_chunk_length\<close> times the
  target width columns.  Every row of \<open>X\<close> is, for some episode and time \<open>t\<close>, the
  target-lag block followed by the past-covariate block followed by the future-covariate
  block, each block listing lag by lag all components of its series; every row of
  \<open>y\<close> is the block of the target at the steps \<open>0, ..., output_chunk_length - 1\<close>.
  Each lag list is non-empty and ascending, so within a group the columns run by
  ascending lag and then by component.
\<close>

theorem feature_label_layout:
  assumes init: "RegressionModel_init la lp lf ocl = Inr self"
    and build: "create_lagged_data self target_series past_covariates future_covariates cap = Inr (X, y)"
    and wt: "\<forall>s \<in> set target_series. wf_ts s"
    and wp: "\<forall>cs. past_covariates = Some cs \<longrightarrow> (\<forall>s \<in> set cs. wf_ts s)"
    and wf: "\<forall>cs. future_covariates = Some cs \<longrightarrow> (\<forall>s \<in> set cs. wf_ts s)"
  shows "(\<forall>idx < length target_series.
            (\<forall>r \<in> set X. length r =
               spec_n_features self (target_series ! idx)
                 (cov_at past_covariates idx) (cov_at future_covariates idx)) \<and>
            (\<forall>r \<in> set y. length r = nat ocl * ts_width (target_series ! idx))) \<and>
         (\<forall>r \<in> set X. \<exists>idx t. idx < length target_series \<and>
            r = spec_feature_row self (target_series ! idx)
                  (cov_at past_covariates idx) (cov_at future_covariates idx) t) \<and>
         (\<forall>r \<in> set y. \<exists>idx t. idx < length target_series \<and>
            r = spec_label_row self (target_series ! idx) t) \<and>
         (\<forall>k ls. lags_get (lags self) k = Some ls \<longrightarrow> sorted ls \<and> ls \<noteq> []) \<and>
         X \<noteq> [] \<and> ocl > 0"
proof -
  let ?po = "\<lambda>idx. cov_at past_covariates idx" and ?fo = "\<lambda>idx. cov_at future_covariates idx"
  let ?n = "length target_series"
  from init have ocl: "ocl > 0" "output_chunk_length self = ocl" by (auto simp: init_Inr_iff)
  from build obtain Xys where
        eps: "lagged_episodes self ?n 0 target_series past_covariates future_covariates cap = Inr Xys"
    and cX: "np_concatenate0 (map fst Xys) = Inr X"
    and cy: "np_concatenate0 (map snd Xys) = Inr y"
    unfolding create_lagged_data_def bindE_Inr_iff by auto
  from lagged_episodes_Inr[OF eps] have len: "length Xys = ?n"
    and ep: "\<And>i. i < ?n \<Longrightarrow>
      lagged_episode self ?n i (target_series ! i) past_covariates future_covariates cap = Inr (Xys ! i)"
    by auto
  have wfi: "wf_ts (target_series ! i)" "\<forall>s. ?po i = Some s \<longrightarrow> wf_ts s" "\<forall>s. ?fo i = Some s \<longrightarrow> wf_ts s"
    if "i < ?n" for i
    using that wt wp wf by (auto dest!: cov_at_in_set)
  have lay: "fst (fst (Xys ! i)) = spec_n_features self (target_series ! i) (?po i) (?fo i)"
            "fst (snd (Xys ! i)) = nat ocl * ts_width (target_series ! i)"
            "\<forall>r \<in> set (snd (fst (Xys ! i))). \<exists>t. r = spec_feature_row self (target_series ! i) (?po i) (?fo i) t"
            "\<forall>r \<in> set (snd (snd (Xys ! i))). \<exists>t. r = spec_label_row self (target_series ! i) t"
            "snd (fst (Xys ! i)) \<noteq> []"
    if "i < ?n" for i
  proof -
    obtain nX Xi nY Yi where e: "Xys ! i = ((nX, Xi), (nY, Yi))" by (metis surj_pair)
    note L = lagged_episode_layout[OF ep[OF that, unfolded e] wfi[OF that]]
    show "fst (fst (Xys ! i)) = spec_n_features self (target_series ! i) (?po i) (?fo i)"
      using L(1) e by simp
    show "fst (snd (Xys ! i)) = nat ocl * ts_width (target_series ! i)"
      using L(2) e ocl by simp
    show "\<forall>r \<in> set (snd (fst (Xys ! i))). \<exists>t. r = spec_feature_row self (target_series ! i) (?po i) (?fo i) t"
      using L(3) e by simp
    show "\<forall>r \<in> set (snd (snd (Xys ! i))). \<exists>t. r = spec_label_row self (target_series ! i) t"
      using L(4) e by simp
    show "snd (fst (Xys ! i)) \<noteq> []" using L(5) e by simp
  qed
  note NX = np_concatenate0_Inr[OF cX] and NY = np_concatenate0_Inr[OF cy]
  have Xrow: "\<exists>j < ?n. r \<in> set (snd (fst (Xys ! j)))" if "r \<in> set X" for r
  proof -
    from that NX(3) obtain Xy where "Xy \<in> set Xys" "r \<in> set (snd (fst Xy))" by auto
    then show ?thesis using len by (metis in_set_conv_nth)
  qed
  have yrow: "\<exists>j < ?n. r \<in> set (snd (snd (Xys ! j)))" if "r \<in> set y" for r
  proof -
    from that NY(3) obtain Xy where "Xy \<in> set Xys" "r \<in> set (snd (snd Xy))" by auto
    then show ?thesis using len by (metis in_set_conv_nth)
  qed
  have memX: "fst (Xys ! i) \<in> set (map fst Xys)" and memY: "snd (Xys ! i) \<in> set (map snd Xys)"
    if "i < ?n" for i
  proof -
    from that len have "Xys ! i \<in> set Xys" by simp
    then show "fst (Xys ! i) \<in> set (map fst Xys)" "snd (Xys ! i) \<in> set (map snd Xys)"
      by simp_all
  qed
  have eqX: "fst (fst (Xys ! i)) = fst (fst (Xys ! j))" if "i < ?n" "j < ?n" for i j
    using NX(2) memX[OF that(1)] memX[OF that(2)] by blast
  have eqY: "fst (snd (Xys ! i)) = fst (snd (Xys ! j))" if "i < ?n" "j < ?n" for i j
    using NY(2) memY[OF that(1)] memY[OF that(2)] by blast
  have c1: "\<forall>r \<in> set X. length r =
               spec_n_features self (target_series ! idx) (?po idx) (?fo idx)" if "idx < ?n" for idx
  proof
    fix r assume "r \<in> set X"
    then obtain j where j: "j < ?n" "r \<in> set (snd (fst (Xys ! j)))" using Xrow by blast
    then obtain t where "r = spec_feature_row self (target_series ! j) (?po j) (?fo j) t"
      using lay(3) by blast
    then have "length r = fst (fst (Xys ! j))"
      using length_spec_feature_row[OF wfi[OF j(1)]] lay(1)[OF j(1)] by simp
    then show "length r = spec_n_features self (target_series ! idx) (?po idx) (?fo idx)"
      using eqX[OF j(1) that] lay(1)[OF that] by simp
  qed
  have c2: "\<forall>r \<in> set y. length r = nat ocl * ts_width (target_series ! idx)" if "idx < ?n" for idx
  proof
    fix r assume "r \<in> set y"
    then obtain j where j: "j < ?n" "r \<in> set (snd (snd (Xys ! j)))" using yrow by blast
    then obtain t where "r = spec_label_row self (target_series ! j) t"
      using lay(4) by blast
    then have "length r = fst (snd (Xys ! j))"
      using length_spec_label_row[OF wfi(1)[OF j(1)]] lay(2)[OF j(1)] ocl by simp
    then show "length r = nat ocl * ts_width (target_series ! idx)"
      using eqY[OF j(1) that] lay(2)[OF that] by simp
  qed
  have c3: "\<forall>r \<in> set X. \<exists>idx t. idx < ?n \<and>
            r = spec_feature_row self (target_series ! idx) (?po idx) (?fo idx) t"
    using Xrow lay(3) by blast
  have c4: "\<forall>r \<in> set y. \<exists>idx t. idx < ?n \<and> r = spec_label_row self (target_series ! idx) t"
    using yrow lay(4) by blast
  have c5: "\<forall>k ls. lags_get (lags self) k = Some ls \<longrightarrow> sorted ls \<and> ls \<noteq> []"
  proof (intro allI impI)
    fix k ls assume g: "lags_get (lags self) k = Some ls"
    from init obtain t p f where
      t: "set_target_lags la = Inr t" and p: "set_past_lags lp = Inr p"
      and f: "set_future_lags lf = Inr f"
      and s: "lags self = \<lparr> lags_target = t, lags_past = p, lags_future = f \<rparr>"
      by (auto simp: init_Inr_iff)
    show "sorted ls \<and> ls \<noteq> []"
    proof (cases k)
      case Target
      with g s have "t = Some ls" by (simp add: lags_get_def)
      with t show ?thesis
        by (auto simp: set_target_lags_def sort_eq_Nil_iff split: option.splits lags_arg.splits if_splits)
    next
      case Past
      with g s have "p = Some ls" by (simp add: lags_get_def)
      with p show ?thesis
        by (auto simp: set_past_lags_def sort_eq_Nil_iff split: option.splits lags_arg.splits if_splits)
    next
      case Future
      with g s have "f = Some ls" by (simp add: lags_get_def)
      with f show ?thesis
        by (auto simp: set_future_lags_def sort_eq_Nil_iff split: option.splits future_lags_arg.splits if_splits)
    qed
  qed
  have c6: "X \<noteq> []"
  proof -
    from NX(1) have "0 < ?n" using len by auto
    from lay(5)[OF this] have "snd (fst (Xys ! 0)) \<noteq> []" .
    moreover have "Xys \<noteq> []" using NX(1) by auto
    ultimately show ?thesis using NX(3) by (cases Xys) auto
  qed
  show ?thesis
  proof (intro conjI allI impI)
    fix idx assume i: "idx < ?n"
    show "\<forall>r \<in> set X. length r =
            spec_n_features self (target_series ! idx) (?po idx) (?fo idx)"
      by (rule c1[OF i])
    show "\<forall>r \<in> set y. length r = nat ocl * ts_width (target_series ! idx)"
      by (rule c2[OF i])
  next
    show "\<forall>r \<in> set X. \<exists>idx t. idx < ?n \<and>
            r = spec_feature_row self (target_series ! idx) (?po idx) (?fo idx) t"
      by (rule c3)
    show "\<forall>r \<in> set y. \<exists>idx t. idx < ?n \<and> r = spec_label_row self (target_series ! idx) t"
      by (rule c4)
    show "X \<noteq> []" by (rule c6)
    show "ocl > 0" by (rule ocl(1))
  next
    fix k ls assume "lags_get (lags self) k = Some ls"
    with c5 show "sorted ls" "ls \<noteq> []" by blast+
  qed
qed

lemma covariate_example_eval:
  "create_lagged_data
     \<lparr> lags = \<lparr> lags_target = Some [-1], lags_past = Some [-1], lags_future = Some [0] \<rparr>,
       output_chunk_length = 2 \<rparr>
     [\<lparr> ts_start = 0, ts_freq = 1,
        ts_values = [[Some 0], [Some 1], [Some 2], [Some (3::real)]],
        ts_width = 1, has_range_index = True \<rparr>]
     (Some [\<lparr> ts_start = 0, ts_freq = 1,
        ts_values = [[Some 10], [Some 11], [Some 12], [Some 13]],
        ts_width = 1, has_range_index = True \<rparr>])
     (Some [\<lparr> ts_start = 1, ts_freq = 1,
        ts_values = [[Some 21, Some 31], [Some 22, Some 32], [Some 23, Some 33]],
        ts_width = 2, has_range_index = True \<rparr>]) None
   = Inr ([[Some 0, Some 10, Some 21, Some 31], [Some 1, Some 11, Some 22, Some 32]],
          [[Some 1, Some 2], [Some 2, Some 3]])"
  by code_simp

theorem feature_label_layout_witness:
  "create_lagged_data
     \<lparr> lags = \<lparr> lags_target = Some [-1], lags_past = Some [-1], lags_future = Some [0] \<rparr>,
       output_chunk_length = 2 \<rparr>
     [\<lparr> ts_start = 0, ts_freq = 1,
        ts_values = [[Some 0], [Some 1], [Some 2], [Some (3::real)]],
        ts_width = 1, has_range_index = True \<rparr>]
     (Some [\<lparr> ts_start = 0, ts_freq = 1,
        ts_values = [[Some 10], [Some 11], [Some 12], [Some 13]],
        ts_width = 1, has_range_index = True \<rparr>])
     (Some [\<lparr> ts_start = 1, ts_freq = 1,
        ts_values = [[Some 21, Some 31], [Some 22, Some 32], [Some 23, Some 33]],
        ts_width = 2, has_range_index = True \<rparr>]) None
   = Inr ([[Some 0, Some 10, Some 21, Some 31], [Some 1, Some 11, Some 22, Some 32]],
          [[Some 1, Some 2], [Some 2, Some 3]])
   \<and> spec_n_features
       \<lparr> lags = \<lparr> lags_target = Some [-1], lags_past = Some [-1], lags_future = Some [0] \<rparr>,
         output_chunk_length = 2 \<rparr>
       \<lparr> ts_start = 0, ts_freq = 1,
         ts_values = [[Some 0], [Some 1], [Some 2], [Some (3::real)]],
         ts_width = 1, has_range_index = True \<rparr>
       (Some \<lparr> ts_start = 0, ts_freq = 1,
         ts_values = [[Some 10], [Some 11], [Some 12], [Some (13::real)]],
         ts_width = 1, has_range_index = True \<rparr>)
       (Some \<lparr> ts_start = 1, ts_freq = 1,
         ts_values = [[Some 21, Some 31], [Some 22, Some 32], [Some (23::real), Some 33]],
         ts_width = 2, has_range_index = True \<rparr>) = 4
   \<and> length [Some (1::real), Some 2] = nat 2 * 1"
proof -
  let ?cfg = "\<lparr> lags = \<lparr> lags_target = Some [-1], lags_past = Some [-1], lags_future = Some [0] \<rparr>,
       output_chunk_length = 2 \<rparr>"
  let ?tgt = "\<lparr> ts_start = 0, ts_freq = 1,
        ts_values = [[Some 0], [Some 1], [Some 2], [Some (3::real)]],
        ts_width = 1, has_range_index = True \<rparr>"
  let ?pc = "\<lparr> ts_start = 0, ts_freq = 1,
        ts_values = [[Some 10], [Some 11], [Some 12], [Some (13::real)]],
        ts_width = 1, has_range_index = True \<rparr>"
  let ?fc = "\<lparr> ts_start = 1, ts_freq = 1,
        ts_values = [[Some 21, Some 31], [Some 22, Some 32], [Some (23::real), Some 33]],
        ts_width = 2, has_range_index = True \<rparr>"
  let ?X = "[[Some 0, Some 10, Some 21, Some 31], [Some 1, Some 11, Some 22, Some (32::real)]]"
  let ?y = "[[Some 1, Some 2], [Some 2, Some (3::real)]]"
  have i: "RegressionModel_init (Some (LagsInt 1)) (Some (LagsInt 1)) (Some (LagsTuple 0 1)) 2 = Inr ?cfg"
    by (simp add: init_defs bindE_simps upto.simps)
  have b: "create_lagged_data ?cfg [?tgt] (Some [?pc]) (Some [?fc]) None = Inr (?X, ?y)"
    by (rule covariate_example_eval)
  have w1: "\<forall>s \<in> set [?tgt]. wf_ts s" by (simp add: wf_ts_def)
  have w2: "\<forall>cs. Some [?pc] = Some cs \<longrightarrow> (\<forall>s \<in> set cs. wf_ts s)" by (simp add: wf_ts_def)
  have w3: "\<forall>cs. Some [?fc] = Some cs \<longrightarrow> (\<forall>s \<in> set cs. wf_ts s)" by (simp add: wf_ts_def)
  note T = feature_label_layout[OF i b w1 w2 w3]
  from T have c: "\<forall>idx < length [?tgt].
            (\<forall>r \<in> set ?X. length r =
               spec_n_features ?cfg ([?tgt] ! idx) (cov_at (Some [?pc]) idx) (cov_at (Some [?fc]) idx)) \<and>
            (\<forall>r \<in> set ?y. length r = nat 2 * ts_width ([?tgt] ! idx))"
    by (rule conjunct1)
  have z: "(0::nat) < length [?tgt]" by simp
  from c z have c0:
     "(\<forall>r \<in> set ?X. length r =
               spec_n_features ?cfg ([?tgt] ! 0) (cov_at (Some [?pc]) 0) (cov_at (Some [?fc]) 0)) \<and>
      (\<forall>r \<in> set ?y. length r = nat 2 * ts_width ([?tgt] ! 0))"
    by blast
  from c0 have "length [Some 0, Some 10, Some 21, Some (31::real)] =
               spec_n_features ?cfg ([?tgt] ! 0) (cov_at (Some [?pc]) 0) (cov_at (Some [?fc]) 0)"
    by simp
  then have f: "spec_n_features ?cfg ?tgt (Some ?pc) (Some ?fc) = 4"
    by (simp add: cov_at_def)
  from c0 have "length [Some (1::real), Some 2] = nat 2 * ts_width ([?tgt] ! 0)" by simp
  then have l: "length [Some (1::real), Some 2] = nat 2 * 1" by simp
  from b f l show ?thesis by blast
qed

section \<open>Probabilistic sampling strategies\<close>























text \<open>
  C7.  With \<^verbatim>\<open>num_samples = 1\<close>: the quantile strategy returns the prediction of the
  model fitted for the level \<open>0.5\<close>, reshaped; the Gaussian strategy returns the emitted
  means (column \<open>0\<close> of a two-dimensional output, plane \<open>0\<close> of a three-dimensional
  one), reshaped; the Poisson strategy returns the emitted rates, reshaped and otherwise
  unchanged.  In each case the model state is returned as it was, generator included,
  and the same call under any other generator state \<open>g'\<close> and any other draw
  operations \<open>ops'\<close> gives the same values.
\<close>

theorem point_estimates_at_one_sample:
  "(map_of (lm_model_container self) (1 / 2) = Some fitted \<longrightarrow>
      predict_quantiles ops self x 1 =
        bindE (reshape3 (length x) (lm_output_chunk_length self) (ravel (fitted x)))
          (\<lambda>median. Inr (map (map (map Some)) median, self))) \<and>
   (lm_model self x = A2 rows \<and> (\<forall>r \<in> set rows. r \<noteq> []) \<longrightarrow>
      predict_normal ops self x 1 =
        bindE (reshape3 (length x) (lm_output_chunk_length self) (map hd rows))
          (\<lambda>mean. Inr (mean, self))) \<and>
   (lm_model self x = A3 (mu # sigma) \<longrightarrow>
      predict_normal ops self x 1 =
        bindE (reshape3 (length x) (lm_output_chunk_length self) (concat mu))
          (\<lambda>mean. Inr (mean, self))) \<and>
   predict_poisson ops self x 1 =
     bindE (reshape3 (length x) (lm_output_chunk_length self) (ravel (lm_model self x)))
       (\<lambda>rate. Inr (rate, self)) \<and>
   predict_quantiles ops' (self \<lparr> lm_rng := g' \<rparr>) x 1 =
     map_sum id (\<lambda>(r, s). (r, s \<lparr> lm_rng := g' \<rparr>)) (predict_quantiles ops self x 1) \<and>
   predict_normal ops' (self \<lparr> lm_rng := g' \<rparr>) x 1 =
     map_sum id (\<lambda>(r, s). (r, s \<lparr> lm_rng := g' \<rparr>)) (predict_normal ops self x 1) \<and>
   predict_poisson ops' (self \<lparr> lm_rng := g' \<rparr>) x 1 =
     map_sum id (\<lambda>(r, s). (r, s \<lparr> lm_rng := g' \<rparr>)) (predict_poisson ops self x 1)"
proof (intro conjI impI)
  assume "map_of (lm_model_container self) (1 / 2) = Some fitted"
  then show "predict_quantiles ops self x 1 =
        bindE (reshape3 (length x) (lm_output_chunk_length self) (ravel (fitted x)))
          (\<lambda>median. Inr (map (map (map Some)) median, self))"
    by (simp add: predict_quantiles_def)
next
  assume a: "lm_model self x = A2 rows \<and> (\<forall>r \<in> set rows. r \<noteq> [])"
  have "mapE (\<lambda>r. take_at r 0) rs = Inr (map hd rs)" if "\<forall>r \<in> set rs. r \<noteq> []" for rs :: "real list list"
    using that by (induction rs) (auto simp: take_at_def bindE_simps hd_conv_nth)
  with a show "predict_normal ops self x 1 =
        bindE (reshape3 (length x) (lm_output_chunk_length self) (map hd rows))
          (\<lambda>mean. Inr (mean, self))"
    by (simp add: predict_normal_def bindE_simps)
next
  assume "lm_model self x = A3 (mu # sigma)"
  then show "predict_normal ops self x 1 =
        bindE (reshape3 (length x) (lm_output_chunk_length self) (concat mu))
          (\<lambda>mean. Inr (mean, self))"
    by (simp add: predict_normal_def take_at_def bindE_simps)
next
  show "predict_poisson ops self x 1 =
     bindE (reshape3 (length x) (lm_output_chunk_length self) (ravel (lm_model self x)))
       (\<lambda>rate. Inr (rate, self))"
    by (simp add: predict_poisson_def)
next
  show "predict_quantiles ops' (self \<lparr> lm_rng := g' \<rparr>) x 1 =
     map_sum id (\<lambda>(r, s). (r, s \<lparr> lm_rng := g' \<rparr>)) (predict_quantiles ops self x 1)"
    by (auto simp: predict_quantiles_def bindE_def split: option.splits sum.splits)
next
  show "predict_normal ops' (self \<lparr> lm_rng := g' \<rparr>) x 1 =
     map_sum id (\<lambda>(r, s). (r, s \<lparr> lm_rng := g' \<rparr>)) (predict_normal ops self x 1)"
    by (auto simp: predict_normal_def bindE_def Let_def split: sum.splits)
next
  show "predict_poisson ops' (self \<lparr> lm_rng := g' \<rparr>) x 1 =
     map_sum id (\<lambda>(r, s). (r, s \<lparr> lm_rng := g' \<rparr>)) (predict_poisson ops self x 1)"
    by (auto simp: predict_poisson_def bindE_def split: sum.splits)
qed

lemma reshape3_examples:
  "reshape3 (Suc (Suc 0)) 1 [7, 8 :: real] = Inr [[[7]], [[8]]]"
  "reshape3 (Suc (Suc 0)) 1 [3, 5 :: real] = Inr [[[3]], [[5]]]"
  "reshape3 (Suc (Suc 0)) 1 [3, 1, 5, 2 :: real] = Inr [[[3, 1]], [[5, 2]]]"
  by code_simp+

theorem point_estimates_at_one_sample_witness:
  "predict_quantiles
     \<lparr> rng_uniform = (\<lambda>g shape. (map (map (map (\<lambda>_. 3 / 10))) shape, Suc g)),
       rng_normal = (\<lambda>g mu sigma. (mu, Suc g)),
       rng_poisson = (\<lambda>g lam. (lam, Suc g)) \<rparr>
     \<lparr> lm_output_chunk_length = 1, lm_model = (\<lambda>x. A2 [[3, 1], [5, 2]]),
       lm_model_container = [(1 / 10, \<lambda>x. A1 [1, 2]), (1 / 2, \<lambda>x. A1 [7, 8]), (9 / 10, \<lambda>x. A1 [9, 9])],
       lm_quantiles = [1 / 10, 1 / 2, 9 / 10], lm_rng = (0::nat) \<rparr>
     [[0], [0]] 1
   = Inr ([[[Some 7]], [[Some 8]]],
     \<lparr> lm_output_chunk_length = 1, lm_model = (\<lambda>x. A2 [[3, 1], [5, 2]]),
       lm_model_container = [(1 / 10, \<lambda>x. A1 [1, 2]), (1 / 2, \<lambda>x. A1 [7, 8]), (9 / 10, \<lambda>x. A1 [9, 9])],
       lm_quantiles = [1 / 10, 1 / 2, 9 / 10], lm_rng = (0::nat) \<rparr>)
   \<and> predict_normal
     \<lparr> rng_uniform = (\<lambda>g shape. (map (map (map (\<lambda>_. 3 / 10))) shape, Suc g)),
       rng_normal = (\<lambda>g mu sigma. (mu, Suc g)),
       rng_poisson = (\<lambda>g lam. (lam, Suc g)) \<rparr>
     \<lparr> lm_output_chunk_length = 1, lm_model = (\<lambda>x. A2 [[3, 1], [5, 2]]),
       lm_model_container = [(1 / 10, \<lambda>x. A1 [1, 2]), (1 / 2, \<lambda>x. A1 [7, 8]), (9 / 10, \<lambda>x. A1 [9, 9])],
       lm_quantiles = [1 / 10, 1 / 2, 9 / 10], lm_rng = (0::nat) \<rparr>
     [[0], [0]] 1
   = Inr ([[[3]], [[5]]],
     \<lparr> lm_output_chunk_length = 1, lm_model = (\<lambda>x. A2 [[3, 1], [5, 2]]),
       lm_model_container = [(1 / 10, \<lambda>x. A1 [1, 2]), (1 / 2, \<lambda>x. A1 [7, 8]), (9 / 10, \<lambda>x. A1 [9, 9])],
       lm_quantiles = [1 / 10, 1 / 2, 9 / 10], lm_rng = (0::nat) \<rparr>)
   \<and> predict_poisson
     \<lparr> rng_uniform = (\<lambda>g shape. (map (map (map (\<lambda>_. 3 / 10))) shape, Suc g)),
       rng_normal = (\<lambda>g mu sigma. (mu, Suc g)),
       rng_poisson = (\<lambda>g lam. (lam, Suc g)) \<rparr>
     \<lparr> lm_output_chunk_length = 1, lm_model = (\<lambda>x. A2 [[3, 1], [5, 2]]),
       lm_model_container = [(1 / 10, \<lambda>x. A1 [1, 2]), (1 / 2, \<lambda>x. A1 [7, 8]), (9 / 10, \<lambda>x. A1 [9, 9])],
       lm_quantiles = [1 / 10, 1 / 2, 9 / 10], lm_rng = (0::nat) \<rparr>
     [[0], [0]] 1
   = Inr ([[[3, 1]], [[5, 2]]],
     \<lparr> lm_output_chunk_length = 1, lm_model = (\<lambda>x. A2 [[3, 1], [5, 2]]),
       lm_model_container = [(1 / 10, \<lambda>x. A1 [1, 2]), (1 / 2, \<lambda>x. A1 [7, 8]), (9 / 10, \<lambda>x. A1 [9, 9])],
       lm_quantiles = [1 / 10, 1 / 2, 9 / 10], lm_rng = (0::nat) \<rparr>)"
proof -
  let ?ops = "\<lparr> rng_uniform = (\<lambda>g shape. (map (map (map (\<lambda>_. 3 / 10))) shape, Suc g)),
       rng_normal = (\<lambda>g mu sigma. (mu, Suc g)),
       rng_poisson = (\<lambda>g lam. (lam, Suc g)) \<rparr> :: nat rng_ops"
  let ?self = "\<lparr> lm_output_chunk_length = 1, lm_model = (\<lambda>x. A2 [[3, 1], [5, 2]]),
       lm_model_container = [(1 / 10, \<lambda>x. A1 [1, 2]), (1 / 2, \<lambda>x. A1 [7, 8]), (9 / 10, \<lambda>x. A1 [9, 9])],
       lm_quantiles = [1 / 10, 1 / 2, 9 / 10], lm_rng = (0::nat) \<rparr>"
  let ?x = "[[0], [0 :: real]]"
  note T = point_estimates_at_one_sample[of ?self "\<lambda>x. A1 [7, 8]" ?ops ?x "[[3, 1], [5, 2]]" "[]" "[]" ?ops 0]
  have m: "map_of (lm_model_container ?self) (1 / 2) = Some (\<lambda>x. A1 [7, 8])" by simp
  have n: "lm_model ?self ?x = A2 [[3, 1], [5, 2]] \<and> (\<forall>r \<in> set [[3, 1], [5, 2 :: real]]. r \<noteq> [])"
    by simp
  from T m have q: "predict_quantiles ?ops ?self ?x 1 =
        bindE (reshape3 (length ?x) (lm_output_chunk_length ?self) (ravel (A1 [7, 8])))
          (\<lambda>median. Inr (map (map (map Some)) median, ?self))" by blast
  from T n have nn: "predict_normal ?ops ?self ?x 1 =
        bindE (reshape3 (length ?x) (lm_output_chunk_length ?self) (map hd [[3, 1], [5, 2]]))
          (\<lambda>mean. Inr (mean, ?self))" by blast
  from T have p: "predict_poisson ?ops ?self ?x 1 =
     bindE (reshape3 (length ?x) (lm_output_chunk_length ?self) (ravel (lm_model ?self ?x)))
       (\<lambda>rate. Inr (rate, ?self))" by blast
  have q': "predict_quantiles ?ops ?self ?x 1 = Inr ([[[Some 7]], [[Some 8]]], ?self)"
    unfolding q by (simp add: reshape3_examples bindE_simps)
  have n': "predict_normal ?ops ?self ?x 1 = Inr ([[[3]], [[5]]], ?self)"
    unfolding nn by (simp add: reshape3_examples bindE_simps)
  have p': "predict_poisson ?ops ?self ?x 1 = Inr ([[[3, 1]], [[5, 2]]], ?self)"
    unfolding p by (simp add: reshape3_examples bindE_simps)
  from q' n' p' show ?thesis by blast
qed


section \<open>Autoregressive predictor\<close>

lemma series2seq_None [simp]: "series2seq None = None"
  by (simp add: series2seq_def)
















end
